theory Spec2Isabelle
  imports Main "HOL-Library.FSet"
begin

section \<open>Exceptions\<close>

text \<open>
  The exceptions of \<^verbatim>\<open>get_hist.py\<close> are values. Each constructor is the Python class that
  is raised, with its message. \<open>KeyboardInterrupt\<close> is the only one that is not a subclass of
  \<^verbatim>\<open>Exception\<close>.
\<close>

datatype exn =
    ValueError string
  | TypeError string
  | OverflowError string
  | LookupError string
  | ConnectionRefusedError
  | TimeoutError
  | PermissionError string
  | EOFError
  | KeyboardInterrupt
  | OtherException string

section \<open>Strings: decimal rendering, padding, case and replacement\<close>

definition digit_char :: "nat \<Rightarrow> char" where
  "digit_char n = ''0123456789'' ! n"

text \<open>\<^verbatim>\<open>str(n)\<close> of a non-negative Python int.\<close>

fun str_nat :: "nat \<Rightarrow> string" where
  "str_nat n = (if n < 10 then [digit_char n] else str_nat (n div 10) @ [digit_char (n mod 10)])"

declare str_nat.simps [simp del]

text \<open>\<^verbatim>\<open>str(i)\<close> of a Python int.\<close>

definition str_int :: "int \<Rightarrow> string" where
  "str_int i = (if i < 0 then CHR ''-'' # str_nat (nat (- i)) else str_nat (nat i))"

text \<open>Zero padding on the left to a minimum width, as \<^verbatim>\<open>%02d\<close> and \<^verbatim>\<open>{n:02d}\<close> do.\<close>

definition zpad :: "nat \<Rightarrow> nat \<Rightarrow> string" where
  "zpad w n = replicate (w - length (str_nat n)) CHR ''0'' @ str_nat n"

section \<open>Dates and times\<close>

text \<open>
  A naive \<^verbatim>\<open>datetime.datetime\<close>. The constructor of Python accepts years 1 to 9999, months 1
  to 12, days that exist in the month, hours below 24, minutes and seconds below 60.
\<close>

record datetime =
  year :: nat
  month :: nat
  day :: nat
  hour :: nat
  minute :: nat
  second :: nat
  microsecond :: nat

text \<open>\<^verbatim>\<open>datetime(y, m, d, H, M, S)\<close>\<close>

abbreviation (input) mk_datetime :: "nat \<Rightarrow> nat \<Rightarrow> nat \<Rightarrow> nat \<Rightarrow> nat \<Rightarrow> nat \<Rightarrow> datetime" where
  "mk_datetime y m d H M S \<equiv>
     \<lparr>year = y, month = m, day = d, hour = H, minute = M, second = S, microsecond = 0\<rparr>"

definition is_leap :: "nat \<Rightarrow> bool" where
  "is_leap y \<longleftrightarrow> y mod 4 = 0 \<and> (y mod 100 \<noteq> 0 \<or> y mod 400 = 0)"

definition days_in_month :: "nat \<Rightarrow> nat \<Rightarrow> nat" where
  "days_in_month y m =
     (if m = 2 then (if is_leap y then 29 else 28)
      else if m = 4 \<or> m = 6 \<or> m = 9 \<or> m = 11 then 30 else 31)"

definition valid_datetime :: "datetime \<Rightarrow> bool" where
  "valid_datetime dt \<longleftrightarrow>
     1 \<le> year dt \<and> year dt \<le> 9999 \<and> 1 \<le> month dt \<and> month dt \<le> 12 \<and>
     1 \<le> day dt \<and> day dt \<le> days_in_month (year dt) (month dt) \<and>
     hour dt < 24 \<and> minute dt < 60 \<and> second dt < 60 \<and> microsecond dt < 1000000"

text \<open>The proleptic Gregorian ordinal of a date (\<^verbatim>\<open>date.toordinal\<close>): 0001-01-01 is day 1.\<close>

definition days_before_year :: "nat \<Rightarrow> nat" where
  "days_before_year y = (y - 1) * 365 + (y - 1) div 4 - (y - 1) div 100 + (y - 1) div 400"

definition days_before_month :: "nat \<Rightarrow> nat \<Rightarrow> nat" where
  "days_before_month y m =
     [0, 0, 31, 59, 90, 120, 151, 181, 212, 243, 273, 304, 334] ! m
       + (if m > 2 \<and> is_leap y then 1 else 0)"

definition toordinal :: "datetime \<Rightarrow> nat" where
  "toordinal dt = days_before_year (year dt) + days_before_month (year dt) (month dt) + day dt"

text \<open>Seconds and microseconds since midnight.\<close>

definition seconds_of_day :: "datetime \<Rightarrow> nat" where
  "seconds_of_day dt = hour dt * 3600 + minute dt * 60 + second dt"

definition micros_of_day :: "datetime \<Rightarrow> nat" where
  "micros_of_day dt = seconds_of_day dt * 1000000 + microsecond dt"

text \<open>\<^verbatim>\<open>a > b\<close> on naive datetimes compares the seven fields lexicographically.\<close>

definition dt_key :: "datetime \<Rightarrow> nat list" where
  "dt_key dt = [year dt, month dt, day dt, hour dt, minute dt, second dt, microsecond dt]"

fun lex_gt :: "nat list \<Rightarrow> nat list \<Rightarrow> bool" where
  "lex_gt (x # xs) (y # ys) = (x > y \<or> (x = y \<and> lex_gt xs ys))"
| "lex_gt _ _ = False"

definition dt_gt :: "datetime \<Rightarrow> datetime \<Rightarrow> bool" where
  "dt_gt a b = lex_gt (dt_key a) (dt_key b)"

text \<open>
  \<^verbatim>\<open>(b - a).days\<close>: the timedelta is normalised, so its days are the floor of the difference
  in microseconds divided by the microseconds of a day.
\<close>

definition timedelta_days :: "datetime \<Rightarrow> datetime \<Rightarrow> int" where
  "timedelta_days b a =
     ((int (toordinal b) - int (toordinal a)) * 86400000000
        + (int (micros_of_day b) - int (micros_of_day a))) div 86400000000"

text \<open>\<^verbatim>\<open>datetime.min.time()\<close> is midnight; \<^verbatim>\<open>dt.time() != datetime.min.time()\<close>.\<close>

definition time_not_min :: "datetime \<Rightarrow> bool" where
  "time_not_min dt \<longleftrightarrow> \<not> (hour dt = 0 \<and> minute dt = 0 \<and> second dt = 0 \<and> microsecond dt = 0)"

text \<open>
  \<^verbatim>\<open>dt + timedelta(days=1)\<close>: the following calendar day with the same time; Python raises
  OverflowError when the result would lie after year 9999.
\<close>

definition add_one_day :: "datetime \<Rightarrow> exn + datetime" where
  "add_one_day dt =
     (if day dt < days_in_month (year dt) (month dt) then Inr (dt\<lparr>day := day dt + 1\<rparr>)
      else if month dt < 12 then Inr (dt\<lparr>month := month dt + 1, day := 1\<rparr>)
      else if year dt < 9999 then Inr (dt\<lparr>year := year dt + 1, month := 1, day := 1\<rparr>)
      else Inl (OverflowError ''date value out of range''))"

text \<open>\<^verbatim>\<open>dt.replace(hour=h, minute=m, second=s)\<close>; the microsecond stays.\<close>

definition replace_hms :: "datetime \<Rightarrow> nat \<Rightarrow> nat \<Rightarrow> nat \<Rightarrow> datetime" where
  "replace_hms dt h m s = dt\<lparr>hour := h, minute := m, second := s\<rparr>"

text \<open>
  \<^verbatim>\<open>strftime\<close> with the three formats of the program. \<^verbatim>\<open>%Y\<close> is written with four digits
  (as for every year from 1000 on), the other fields with two.
\<close>

definition fmt_date :: "datetime \<Rightarrow> string" where
  "fmt_date dt = zpad 4 (year dt) @ zpad 2 (month dt) @ zpad 2 (day dt)"

definition fmt_time :: "datetime \<Rightarrow> string" where
  "fmt_time dt = zpad 2 (hour dt) @ '':'' @ zpad 2 (minute dt) @ '':'' @ zpad 2 (second dt)"

text \<open>\<^verbatim>\<open>dt.strftime('%Y%m%d %H:%M:%S')\<close>\<close>

definition strftime_ibkr :: "datetime \<Rightarrow> string" where
  "strftime_ibkr dt = fmt_date dt @ '' '' @ fmt_time dt"

text \<open>\<^verbatim>\<open>dt.strftime('%Y%m%d_%H%M%S')\<close>\<close>

definition strftime_suffix :: "datetime \<Rightarrow> string" where
  "strftime_suffix dt =
     fmt_date dt @ ''_'' @ zpad 2 (hour dt) @ zpad 2 (minute dt) @ zpad 2 (second dt)"

section \<open>Parsing date strings: \<^verbatim>\<open>datetime.strptime\<close>\<close>

text \<open>
  \<^verbatim>\<open>strptime\<close> turns the format into a regular expression, takes the first match that the
  backtracking matcher finds at the start of the string, and raises ValueError when there
  is none, when the match does not consume the whole string, or when the fields are not a
  date. Each matcher below returns its matches in the matcher's order of preference (a list
  of successes), so that the head of the list is the match Python takes. Strings are ASCII:
  \<^verbatim>\<open>\d\<close> is a decimal digit and \<^verbatim>\<open>\s\<close> is one of the ten ASCII white space characters.
\<close>

definition in_range :: "char \<Rightarrow> char \<Rightarrow> char \<Rightarrow> bool" where
  "in_range lo hi c \<longleftrightarrow> (of_char lo :: nat) \<le> of_char c \<and> (of_char c :: nat) \<le> of_char hi"

definition is_digit :: "char \<Rightarrow> bool" where
  "is_digit c = in_range CHR ''0'' CHR ''9'' c"

definition digit_val :: "char \<Rightarrow> nat" where
  "digit_val c = of_char c - 48"

definition is_space :: "char \<Rightarrow> bool" where
  "is_space c \<longleftrightarrow> (let n = (of_char c :: nat) in (9 \<le> n \<and> n \<le> 13) \<or> (28 \<le> n \<and> n \<le> 32))"

text \<open>One character of a class \<^verbatim>\<open>[lo-hi]\<close>, and two characters \<^verbatim>\<open>[a-b][c-d]\<close>.\<close>

fun re_one :: "char \<Rightarrow> char \<Rightarrow> string \<Rightarrow> (nat \<times> string) list" where
  "re_one lo hi (c # r) = (if is_digit c \<and> in_range lo hi c then [(digit_val c, r)] else [])"
| "re_one lo hi [] = []"

fun re_two :: "char \<Rightarrow> char \<Rightarrow> char \<Rightarrow> char \<Rightarrow> string \<Rightarrow> (nat \<times> string) list" where
  "re_two a b c d (x # y # r) =
     (if is_digit x \<and> in_range a b x \<and> is_digit y \<and> in_range c d y
      then [(10 * digit_val x + digit_val y, r)] else [])"
| "re_two a b c d _ = []"

text \<open>\<^verbatim>\<open>%Y\<close> is \<^verbatim>\<open>\d\d\d\d\<close>.\<close>

fun re_Y :: "string \<Rightarrow> (nat \<times> string) list" where
  "re_Y (a # b # c # d # r) =
     (if is_digit a \<and> is_digit b \<and> is_digit c \<and> is_digit d
      then [(1000 * digit_val a + 100 * digit_val b + 10 * digit_val c + digit_val d, r)]
      else [])"
| "re_Y _ = []"

text \<open>\<^verbatim>\<open>%m\<close> is \<^verbatim>\<open>1[0-2]|0[1-9]|[1-9]\<close>.\<close>

definition re_m :: "string \<Rightarrow> (nat \<times> string) list" where
  "re_m s = re_two CHR ''1'' CHR ''1'' CHR ''0'' CHR ''2'' s
          @ re_two CHR ''0'' CHR ''0'' CHR ''1'' CHR ''9'' s
          @ re_one CHR ''1'' CHR ''9'' s"

text \<open>\<^verbatim>\<open>%d\<close> is \<^verbatim>\<open>3[0-1]|[1-2]\d|0[1-9]|[1-9]| [1-9]\<close>.\<close>

fun re_space_digit :: "string \<Rightarrow> (nat \<times> string) list" where
  "re_space_digit (x # y # r) =
     (if x = CHR '' '' \<and> in_range CHR ''1'' CHR ''9'' y then [(digit_val y, r)] else [])"
| "re_space_digit _ = []"

definition re_d :: "string \<Rightarrow> (nat \<times> string) list" where
  "re_d s = re_two CHR ''3'' CHR ''3'' CHR ''0'' CHR ''1'' s
          @ re_two CHR ''1'' CHR ''2'' CHR ''0'' CHR ''9'' s
          @ re_two CHR ''0'' CHR ''0'' CHR ''1'' CHR ''9'' s
          @ re_one CHR ''1'' CHR ''9'' s
          @ re_space_digit s"

text \<open>\<^verbatim>\<open>%H\<close> is \<^verbatim>\<open>2[0-3]|[0-1]\d|\d\<close>.\<close>

definition re_H :: "string \<Rightarrow> (nat \<times> string) list" where
  "re_H s = re_two CHR ''2'' CHR ''2'' CHR ''0'' CHR ''3'' s
          @ re_two CHR ''0'' CHR ''1'' CHR ''0'' CHR ''9'' s
          @ re_one CHR ''0'' CHR ''9'' s"

text \<open>\<^verbatim>\<open>%M\<close> is \<^verbatim>\<open>[0-5]\d|\d\<close>.\<close>

definition re_M :: "string \<Rightarrow> (nat \<times> string) list" where
  "re_M s = re_two CHR ''0'' CHR ''5'' CHR ''0'' CHR ''9'' s
          @ re_one CHR ''0'' CHR ''9'' s"

text \<open>\<^verbatim>\<open>%S\<close> is \<^verbatim>\<open>6[0-1]|[0-5]\d|\d\<close>.\<close>

definition re_S :: "string \<Rightarrow> (nat \<times> string) list" where
  "re_S s = re_two CHR ''6'' CHR ''6'' CHR ''0'' CHR ''1'' s
          @ re_two CHR ''0'' CHR ''5'' CHR ''0'' CHR ''9'' s
          @ re_one CHR ''0'' CHR ''9'' s"

text \<open>A literal character of the format.\<close>

fun re_lit :: "char \<Rightarrow> string \<Rightarrow> string list" where
  "re_lit c (x # r) = (if x = c then [r] else [])"
| "re_lit c [] = []"

text \<open>
  A blank of the format is \<^verbatim>\<open>\s+\<close>: greedy, so the longest run of white space comes first
  and the shorter ones follow.
\<close>

fun re_ws_star :: "string \<Rightarrow> string list" where
  "re_ws_star (x # r) = (if is_space x then re_ws_star r @ [x # r] else [x # r])"
| "re_ws_star [] = [Nil]"

fun re_ws :: "string \<Rightarrow> string list" where
  "re_ws (x # r) = (if is_space x then re_ws_star r else [])"
| "re_ws [] = []"

text \<open>The three formats, each giving the six fields and the unconsumed rest.\<close>

definition match_ymd :: "string \<Rightarrow> ((nat \<times> nat \<times> nat) \<times> string) list" where
  "match_ymd s =
     [((y, m, d), r5).
        (y, r1) \<leftarrow> re_Y s, r2 \<leftarrow> re_lit CHR ''-'' r1, (m, r3) \<leftarrow> re_m r2,
        r4 \<leftarrow> re_lit CHR ''-'' r3, (d, r5) \<leftarrow> re_d r4]"

definition match_ymd_hm :: "string \<Rightarrow> ((nat \<times> nat \<times> nat) \<times> (nat \<times> nat) \<times> string) list" where
  "match_ymd_hm s =
     [(ymd, (H, M), r5).
        (ymd, r1) \<leftarrow> match_ymd s, r2 \<leftarrow> re_ws r1, (H, r3) \<leftarrow> re_H r2,
        r4 \<leftarrow> re_lit CHR '':'' r3, (M, r5) \<leftarrow> re_M r4]"

definition match_ymd_hms :: "string \<Rightarrow> ((nat \<times> nat \<times> nat) \<times> (nat \<times> nat \<times> nat) \<times> string) list" where
  "match_ymd_hms s =
     [(ymd, (H, M, S), r3).
        (ymd, (H, M), r1) \<leftarrow> match_ymd_hm s, r2 \<leftarrow> re_lit CHR '':'' r1, (S, r3) \<leftarrow> re_S r2]"

datatype date_format = Fmt_ymd_hms | Fmt_ymd_hm | Fmt_ymd

text \<open>The first match of a format, with the fields a format lacks at their default 0.\<close>

definition first_match :: "date_format \<Rightarrow> string \<Rightarrow> (datetime \<times> string) option" where
  "first_match f s =
     (case f of
        Fmt_ymd_hms \<Rightarrow>
          (case match_ymd_hms s of [] \<Rightarrow> None
           | ((y, m, d), (H, M, S), r) # _ \<Rightarrow>
               Some (\<lparr>year = y, month = m, day = d, hour = H, minute = M, second = S,
                       microsecond = 0\<rparr>, r))
      | Fmt_ymd_hm \<Rightarrow>
          (case match_ymd_hm s of [] \<Rightarrow> None
           | ((y, m, d), (H, M), r) # _ \<Rightarrow>
               Some (\<lparr>year = y, month = m, day = d, hour = H, minute = M, second = 0,
                       microsecond = 0\<rparr>, r))
      | Fmt_ymd \<Rightarrow>
          (case match_ymd s of [] \<Rightarrow> None
           | ((y, m, d), r) # _ \<Rightarrow>
               Some (\<lparr>year = y, month = m, day = d, hour = 0, minute = 0, second = 0,
                       microsecond = 0\<rparr>, r)))"

text \<open>\<^verbatim>\<open>datetime.strptime(date_str, fmt)\<close>: the datetime, or None for its ValueError.\<close>

definition strptime :: "string \<Rightarrow> date_format \<Rightarrow> datetime option" where
  "strptime s f =
     (case first_match f s of
        None \<Rightarrow> None
      | Some (dt, r) \<Rightarrow> if r \<noteq> [] then None else if valid_datetime dt then Some dt else None)"

text \<open>
  \<^verbatim>\<open>parse_date_string\<close>: None for an empty string, the first format that parses, and
  ValueError when none does.
\<close>

fun try_formats :: "string \<Rightarrow> date_format list \<Rightarrow> datetime option" where
  "try_formats s [] = None"
| "try_formats s (f # fs) = (case strptime s f of Some dt \<Rightarrow> Some dt | None \<Rightarrow> try_formats s fs)"

definition parse_date_string :: "string \<Rightarrow> exn + datetime option" where
  "parse_date_string date_str =
     (if date_str = [] then Inr None
      else case try_formats date_str [Fmt_ymd_hms, Fmt_ymd_hm, Fmt_ymd] of
             Some dt \<Rightarrow> Inr (Some dt)
           | None \<Rightarrow> Inl (ValueError (''Invalid date format: '' @ date_str
                          @ ''. Use YYYY-MM-DD or YYYY-MM-DD HH:MM:SS'')))"

section \<open>The request window: \<^verbatim>\<open>process_date_arguments\<close>\<close>

text \<open>
  \<^verbatim>\<open>processed_info\<close>, the dictionary returned for display: its \<^verbatim>\<open>mode\<close> with the entries
  each mode carries (\<open>Date_range start_date end_date calculated_duration\<close>,
  \<open>Single_day target_date duration\<close>, \<open>Duration_with_end end_date duration\<close>,
  \<open>Duration_only duration\<close>).
\<close>

datatype processed_info =
    Date_range string string string
  | Single_day string string
  | Duration_with_end string string
  | Duration_only string

text \<open>
  \<^verbatim>\<open>format_ibkr_datetime(dt, has_time_component)\<close>, a closure over
  \<^verbatim>\<open>include_extended_hours\<close>, which is the first argument here.
\<close>

definition format_ibkr_datetime :: "bool \<Rightarrow> datetime \<Rightarrow> bool \<Rightarrow> exn + string" where
  "format_ibkr_datetime include_extended_hours dt has_time_component =
     (if has_time_component then Inr (strftime_ibkr dt)
      else if include_extended_hours then
        (case add_one_day dt of
           Inl e \<Rightarrow> Inl e
         | Inr next_day \<Rightarrow> Inr (strftime_ibkr (replace_hms next_day 2 0 0)))
      else Inr (strftime_ibkr (replace_hms dt 16 0 0)))"

text \<open>\<^verbatim>\<open>parse_date_string(s) if s else None\<close>, for an argument that may be None.\<close>

definition parse_arg :: "string option \<Rightarrow> exn + datetime option" where
  "parse_arg a = (case a of None \<Rightarrow> Inr None
                  | Some s \<Rightarrow> if s = [] then Inr None else parse_date_string s)"

text \<open>The duration of a date range of \<open>duration_days\<close> days.\<close>

definition range_duration_str :: "int \<Rightarrow> string" where
  "range_duration_str duration_days =
     (if duration_days = 1 then ''1 D''
      else if duration_days \<le> 365 then str_int duration_days @ '' D''
      else str_int (duration_days div 365) @ '' Y'')"

text \<open>
  \<^verbatim>\<open>process_date_arguments\<close>. The first argument is the value of \<^verbatim>\<open>datetime.now()\<close>. The
  result is the triple \<^verbatim>\<open>(end_datetime_str, duration_str, processed_info)\<close> or the exception
  raised.
\<close>

definition process_date_arguments ::
  "datetime \<Rightarrow> string option \<Rightarrow> string option \<Rightarrow> string \<Rightarrow> bool
     \<Rightarrow> exn + (string \<times> string \<times> processed_info)" where
  "process_date_arguments now start_date_str end_date_str default_duration include_extended_hours =
     (case parse_arg start_date_str of Inl e \<Rightarrow> Inl e | Inr start_date \<Rightarrow>
     (case parse_arg end_date_str of Inl e \<Rightarrow> Inl e | Inr end_date \<Rightarrow>
      (case (start_date, end_date) of
         (Some sd, Some ed) \<Rightarrow>
           if dt_gt sd ed then Inl (ValueError ''Start date cannot be after end date'')
           else
             (let duration_days = timedelta_days ed sd + 1;
                  duration_str = range_duration_str duration_days;
                  has_time = time_not_min ed
              in case format_ibkr_datetime include_extended_hours ed has_time of
                   Inl e \<Rightarrow> Inl e
                 | Inr end_datetime_str \<Rightarrow>
                     Inr (end_datetime_str, duration_str,
                          Date_range (the start_date_str) (the end_date_str) duration_str))
       | (Some sd, None) \<Rightarrow>
           (let duration_str = ''1 D'';
                has_time = time_not_min sd;
                fix_rth = (\<not> has_time \<and> \<not> include_extended_hours);
                end_datetime = (if fix_rth then replace_hms sd 16 0 0 else sd);
                has_time = (if fix_rth then True else has_time)
            in case format_ibkr_datetime include_extended_hours end_datetime has_time of
                 Inl e \<Rightarrow> Inl e
               | Inr end_datetime_str \<Rightarrow>
                   Inr (end_datetime_str, duration_str,
                        Single_day (the start_date_str) duration_str))
       | (None, Some ed) \<Rightarrow>
           (let duration_str = default_duration;
                has_time = time_not_min ed
            in case format_ibkr_datetime include_extended_hours ed has_time of
                 Inl e \<Rightarrow> Inl e
               | Inr end_datetime_str \<Rightarrow>
                   Inr (end_datetime_str, duration_str,
                        Duration_with_end (the end_date_str) duration_str))
       | (None, None) \<Rightarrow>
           (let duration_str = default_duration
            in case (if include_extended_hours then format_ibkr_datetime include_extended_hours now False
                     else format_ibkr_datetime include_extended_hours now False) of
                 Inl e \<Rightarrow> Inl e
               | Inr end_datetime_str \<Rightarrow>
                   Inr (end_datetime_str, duration_str, Duration_only duration_str)))))"

section \<open>The request window as the specification words it\<close>

text \<open>
  The number of calendar days from the date of \<open>a\<close> to the date of \<open>b\<close>, both included, and
  the duration string the specification gives for a range of \<open>N\<close> days.
\<close>

definition inclusive_calendar_days :: "datetime \<Rightarrow> datetime \<Rightarrow> int" where
  "inclusive_calendar_days a b = int (toordinal b) - int (toordinal a) + 1"

definition spec_duration_string :: "int \<Rightarrow> string" where
  "spec_duration_string N =
     (if N \<le> 365 then str_int N @ '' D'' else str_int (N div 365) @ '' Y'')"

text \<open>
  The session close of a calendar date: 16:00:00 on that date for the regular session,
  02:00:00 on the following calendar date for the extended session.
\<close>

definition session_close_timestamp :: "bool \<Rightarrow> datetime \<Rightarrow> string \<Rightarrow> bool" where
  "session_close_timestamp extended dt ts \<longleftrightarrow>
     (if extended
      then (\<exists>nd. valid_datetime nd \<and> toordinal nd = toordinal dt + 1
                 \<and> ts = fmt_date nd @ '' 02:00:00'')
      else ts = fmt_date dt @ '' 16:00:00'')"

text \<open>
  The anchor of a request and whether it carries a time of day other than midnight: the
  end date when there is one, else the start date, else the current moment taken as a date.
\<close>

definition request_anchor :: "datetime \<Rightarrow> string option \<Rightarrow> string option \<Rightarrow> datetime \<times> bool" where
  "request_anchor now start_date_str end_date_str =
     (case parse_arg end_date_str of
        Inr (Some ed) \<Rightarrow> (ed, time_not_min ed)
      | _ \<Rightarrow> (case parse_arg start_date_str of
                Inr (Some sd) \<Rightarrow> (sd, time_not_min sd)
              | _ \<Rightarrow> (now, False)))"

text \<open>
  The inputs the resolver accepts: both arguments parse (an absent or empty argument
  counts as parsed), and a start that is given is not after an end that is given.
\<close>

definition dates_accepted :: "string option \<Rightarrow> string option \<Rightarrow> bool" where
  "dates_accepted start_date_str end_date_str =
     (case parse_arg start_date_str of
        Inl _ \<Rightarrow> False
      | Inr start_date \<Rightarrow>
          (case parse_arg end_date_str of
             Inl _ \<Rightarrow> False
           | Inr end_date \<Rightarrow>
               (case (start_date, end_date) of
                  (Some sd, Some ed) \<Rightarrow> \<not> dt_gt sd ed
                | _ \<Rightarrow> True)))"

text \<open>
  The one window whose session close has no date: an extended-session request anchored,
  without a time of day, on 9999-12-31.
\<close>

definition no_following_day :: "datetime \<Rightarrow> string option \<Rightarrow> string option \<Rightarrow> bool \<Rightarrow> bool" where
  "no_following_day now start_date_str end_date_str extended =
     (let (dt, explicit) = request_anchor now start_date_str end_date_str
      in extended \<and> \<not> explicit \<and> year dt = 9999 \<and> month dt = 12 \<and> day dt = 31)"

text \<open>The end timestamp and the duration of a result, without the display information.\<close>

definition end_and_duration ::
  "exn + (string \<times> string \<times> processed_info) \<Rightarrow> exn + (string \<times> string)" where
  "end_and_duration r = (case r of Inl e \<Rightarrow> Inl e | Inr (ts, dur, info) \<Rightarrow> Inr (ts, dur))"

section \<open>More strings\<close>

text \<open>\<^verbatim>\<open>s.upper()\<close> on ASCII letters; every other character stays.\<close>

definition upper_char :: "char \<Rightarrow> char" where
  "upper_char c =
     (case map_of (zip ''abcdefghijklmnopqrstuvwxyz'' ''ABCDEFGHIJKLMNOPQRSTUVWXYZ'') c of
        Some u \<Rightarrow> u
      | None \<Rightarrow> c)"

definition upper :: "string \<Rightarrow> string" where
  "upper s = map upper_char s"

text \<open>\<^verbatim>\<open>s.strip()\<close>\<close>

definition strip :: "string \<Rightarrow> string" where
  "strip s = rev (dropWhile is_space (rev (dropWhile is_space s)))"

text \<open>
  \<^verbatim>\<open>s.replace(old, new)\<close>: the occurrences of \<open>old\<close> from the left, not overlapping. An
  empty \<open>old\<close> matches before every character and at the end.
\<close>

function str_replace :: "string \<Rightarrow> string \<Rightarrow> string \<Rightarrow> string" where
  "str_replace old new s =
     (if old = [] then new @ concat (map (\<lambda>c. c # new) s)
      else if s = [] then []
      else if take (length old) s = old then new @ str_replace old new (drop (length old) s)
      else hd s # str_replace old new (tl s))"
  by pat_completeness auto
termination
  by (relation "measure (\<lambda>(old, new, s). length s)") auto

declare str_replace.simps [simp del]

text \<open>\<^verbatim>\<open>x in s\<close> for strings: \<open>x\<close> occurs in \<open>s\<close>.\<close>

fun str_contains :: "string \<Rightarrow> string \<Rightarrow> bool" where
  "str_contains [] x = (x = [])"
| "str_contains (c # cs) x = (take (length x) (c # cs) = x \<or> str_contains cs x)"

text \<open>\<^verbatim>\<open>sep.join(parts)\<close>\<close>

fun join :: "string \<Rightarrow> string list \<Rightarrow> string" where
  "join sep [] = []"
| "join sep [x] = x"
| "join sep (x # y # ys) = x @ sep @ join sep (y # ys)"

section \<open>File names\<close>

text \<open>\<^verbatim>\<open>generate_filename\<close>. A contract month that is None or empty is not appended.\<close>

definition generate_filename ::
  "string \<Rightarrow> string \<Rightarrow> string \<Rightarrow> string \<Rightarrow> string option \<Rightarrow> bool \<Rightarrow> string" where
  "generate_filename symbol security_type duration timeframe future_contract_month
       include_extended_hours =
     (let timeframe_clean =
            str_replace ''min'' ''m'' (str_replace ''mins'' ''m'' (str_replace ''secs'' ''s''
              (str_replace '' '' '''' timeframe)));
          timeframe_clean =
            str_replace ''month'' ''M'' (str_replace ''week'' ''w'' (str_replace ''day'' ''d''
              (str_replace ''hour'' ''h'' timeframe_clean)));
          duration_clean = str_replace '' '' '''' duration;
          filename_parts = [upper symbol, security_type];
          filename_parts =
            (if security_type = ''FUT'' \<and> future_contract_month \<noteq> None
                \<and> future_contract_month \<noteq> Some []
             then filename_parts @ [the future_contract_month] else filename_parts);
          filename_parts = filename_parts @ [duration_clean, timeframe_clean];
          filename_parts =
            (if include_extended_hours then filename_parts @ [''ETH''] else filename_parts);
          filename_parts = filename_parts @ [''OHLCV'']
      in join ''_'' filename_parts @ ''.csv'')"

text \<open>
  \<^verbatim>\<open>os.path.splitext\<close> of \<^verbatim>\<open>posixpath\<close>: the extension starts at the last dot of the last path
  component, unless only dots precede it there. \<open>rfind\<close> is \<^verbatim>\<open>str.rfind\<close> of one character,
  with -1 for no occurrence.
\<close>

fun rfind_from :: "char \<Rightarrow> string \<Rightarrow> int \<Rightarrow> int \<Rightarrow> int" where
  "rfind_from c [] i found = found"
| "rfind_from c (x # xs) i found = rfind_from c xs (i + 1) (if x = c then i else found)"

definition rfind :: "string \<Rightarrow> char \<Rightarrow> int" where
  "rfind p c = rfind_from c p 0 (- 1)"

definition splitext :: "string \<Rightarrow> string \<times> string" where
  "splitext p =
     (let sepIndex = rfind p CHR ''/'';
          dotIndex = rfind p CHR ''.''
      in if dotIndex > sepIndex
            \<and> list_ex (\<lambda>c. c \<noteq> CHR ''.'')
                 (take (nat (dotIndex - (sepIndex + 1))) (drop (nat (sepIndex + 1)) p))
         then (take (nat dotIndex) p, drop (nat dotIndex) p)
         else (p, []))"

text \<open>
  The numbered candidate of \<^verbatim>\<open>generate_unique_filename\<close>:
  \<^verbatim>\<open>f"{name_part}_{timestamp}_{counter:02d}{ext}"\<close>.
\<close>

definition numbered_filename :: "string \<Rightarrow> string \<Rightarrow> string \<Rightarrow> nat \<Rightarrow> string" where
  "numbered_filename name_part timestamp ext counter =
     name_part @ ''_'' @ timestamp @ ''_'' @ zpad 2 counter @ ext"

text \<open>The value of a string of decimal digits, used to tell numbered candidates apart.\<close>

definition digits_value :: "string \<Rightarrow> nat" where
  "digits_value s = foldl (\<lambda>a c. 10 * a + digit_val c) 0 s"

text \<open>
  The loop of \<^verbatim>\<open>generate_unique_filename\<close>. \<open>existing\<close> is the set of paths for which
  \<^verbatim>\<open>os.path.exists\<close> holds. The loop ends because the numbered candidates are pairwise
  different and only finitely many paths exist.
\<close>

function unique_loop ::
  "string fset \<Rightarrow> string \<Rightarrow> string \<Rightarrow> string \<Rightarrow> string \<Rightarrow> nat \<Rightarrow> string" where
  "unique_loop existing name_part timestamp ext unique_filename counter =
     (if unique_filename |\<in>| existing
      then unique_loop existing name_part timestamp ext
             (numbered_filename name_part timestamp ext counter) (counter + 1)
      else unique_filename)"
  by pat_completeness auto
termination
proof (relation "measure (\<lambda>(existing, name_part, timestamp, ext, unique_filename, counter).
          2 * card {c. counter \<le> c \<and> numbered_filename name_part timestamp ext c |\<in>| existing}
            + (if unique_filename |\<in>| existing then 1 else 0))", goal_cases)
  case 1
  show ?case by simp
next
  case (2 existing name_part timestamp ext unique_filename counter)
  have digit: "digit_val (digit_char n) = n" if "n < 10" for n
  proof -
    from that have "n \<in> {0,1,2,3,4,5,6,7,8,9}" by auto
    then show ?thesis by (elim insertE emptyE; simp add: digit_val_def digit_char_def)
  qed
  have value_str: "digits_value (str_nat n) = n" for n
  proof (induction n rule: str_nat.induct)
    case (1 n)
    show ?case
    proof (cases "n < 10")
      case True
      then show ?thesis by (simp add: str_nat.simps[of n] digits_value_def digit)
    next
      case False
      with 1 show ?thesis by (simp add: str_nat.simps[of n] digits_value_def digit)
    qed
  qed
  have value_zeros: "digits_value (replicate k CHR ''0'' @ s) = digits_value s" for k s
    by (induction k) (simp_all add: digits_value_def digit_val_def)
  have value_zpad: "digits_value (zpad 2 n) = n" for n
    by (simp add: zpad_def value_zeros value_str)
  have inj: "inj (numbered_filename name_part timestamp ext)"
  proof (rule injI)
    fix a b assume "numbered_filename name_part timestamp ext a = numbered_filename name_part timestamp ext b"
    then have "zpad 2 a = zpad 2 b" by (simp add: numbered_filename_def)
    then have "digits_value (zpad 2 a) = digits_value (zpad 2 b)" by simp
    then show "a = b" by (simp add: value_zpad)
  qed
  let ?S = "\<lambda>n. {c. n \<le> c \<and> numbered_filename name_part timestamp ext c |\<in>| existing}"
  have fin: "finite (?S n)" for n
  proof (rule finite_subset)
    show "?S n \<subseteq> numbered_filename name_part timestamp ext -` fset existing" by auto
    show "finite (numbered_filename name_part timestamp ext -` fset existing)"
      by (rule finite_vimageI[OF _ inj]) simp
  qed
  have step: "?S counter =
      (if numbered_filename name_part timestamp ext counter |\<in>| existing
       then insert counter (?S (counter + 1)) else ?S (counter + 1))"
    by (auto simp: Suc_le_eq order_le_less)
  have "counter \<notin> ?S (counter + 1)" by simp
  with step fin[of "counter + 1"]
  have "card (?S counter) =
      (if numbered_filename name_part timestamp ext counter |\<in>| existing
       then Suc (card (?S (counter + 1))) else card (?S (counter + 1)))"
    by (simp del: One_nat_def)
  with 2 show ?case by simp
qed

declare unique_loop.simps [simp del]

text \<open>\<^verbatim>\<open>generate_unique_filename\<close>, with the paths that exist and the value of \<^verbatim>\<open>datetime.now()\<close>.\<close>

definition generate_unique_filename :: "string fset \<Rightarrow> datetime \<Rightarrow> string \<Rightarrow> string" where
  "generate_unique_filename existing now base_filename =
     (if base_filename |\<notin>| existing then base_filename
      else (let (name_part, ext) = splitext base_filename;
                timestamp = strftime_suffix now;
                unique_filename = name_part @ ''_'' @ timestamp @ ext
            in unique_loop existing name_part timestamp ext unique_filename 1))"

section \<open>Configuration\<close>

text \<open>The module constants of \<^verbatim>\<open>get_hist.py\<close>.\<close>

definition TARGET_SYMBOL :: string where "TARGET_SYMBOL = ''SPY''"
definition SECURITY_TYPE :: string where "SECURITY_TYPE = ''STK''"
definition STOCK_EXCHANGE :: string where "STOCK_EXCHANGE = ''SMART''"
definition STOCK_CURRENCY :: string where "STOCK_CURRENCY = ''USD''"
definition FUTURE_LAST_TRADE_DATE_OR_CONTRACT_MONTH :: string where
  "FUTURE_LAST_TRADE_DATE_OR_CONTRACT_MONTH = []"
definition FUTURE_EXCHANGE :: string where "FUTURE_EXCHANGE = []"
definition FUTURE_CURRENCY :: string where "FUTURE_CURRENCY = ''USD''"
definition HISTORY_DURATION :: string where "HISTORY_DURATION = ''1 Y''"
definition WHAT_TO_SHOW :: string where "WHAT_TO_SHOW = ''TRADES''"
definition IB_HOST :: string where "IB_HOST = ''127.0.0.1''"
definition IB_PORT :: nat where "IB_PORT = 4001"
definition CLIENT_ID :: nat where "CLIENT_ID = 77"

definition VALID_BAR_SIZES :: "string list" where
  "VALID_BAR_SIZES =
     [''1 secs'', ''5 secs'', ''10 secs'', ''15 secs'', ''30 secs'',
      ''1 min'', ''2 mins'', ''3 mins'', ''5 mins'', ''10 mins'', ''15 mins'', ''20 mins'',
      ''30 mins'', ''1 hour'', ''2 hours'', ''3 hours'', ''4 hours'', ''8 hours'',
      ''1 day'', ''1 week'', ''1 month'']"

section \<open>Time frames and time zones\<close>

text \<open>\<^verbatim>\<open>validate_timeframe_duration\<close>: the warnings, in order.\<close>

definition validate_timeframe_duration :: "string \<Rightarrow> string \<Rightarrow> string list" where
  "validate_timeframe_duration timeframe duration =
     (let small_bars = [''1 secs'', ''5 secs'', ''10 secs'', ''15 secs'', ''30 secs''];
          warnings =
            (if timeframe \<in> set small_bars
             then [''WARNING: Timeframe '' @ [CHR 0x27] @ timeframe @ [CHR 0x27] @ '' with duration ''
                     @ [CHR 0x27] @ duration @ [CHR 0x27] @ '' may hit IBKR pacing limits'',
                   ''WARNING: Bars 30 seconds or smaller older than 6 months are not available from IBKR'']
             else [])
      in if timeframe \<in> set small_bars
            \<and> list_ex (\<lambda>x. str_contains (upper duration) x) [''Y'', ''YEAR'']
         then warnings @ [''WARNING: Small timeframes with yearly durations may result in very large datasets'']
         else warnings)"

text \<open>\<^verbatim>\<open>is_intraday_timeframe\<close>\<close>

definition is_intraday_timeframe :: "string \<Rightarrow> bool" where
  "is_intraday_timeframe timeframe \<longleftrightarrow>
     timeframe \<in> set
       [''1 secs'', ''5 secs'', ''10 secs'', ''15 secs'', ''30 secs'',
        ''1 min'', ''2 mins'', ''3 mins'', ''5 mins'', ''10 mins'', ''15 mins'', ''20 mins'',
        ''30 mins'', ''1 hour'', ''2 hours'', ''3 hours'', ''4 hours'', ''8 hours'']"

text \<open>
  A time zone object: \<^verbatim>\<open>pytz.UTC\<close>, \<^verbatim>\<open>pytz.timezone(name)\<close>, or the zone of the system the
  program runs on.
\<close>

datatype zone = Utc | Tz string | System_local

text \<open>\<^verbatim>\<open>get_target_timezone\<close>\<close>

definition get_target_timezone :: "string \<Rightarrow> string \<Rightarrow> zone" where
  "get_target_timezone timezone_choice symbol =
     (if timezone_choice = ''UTC'' then Utc
      else if timezone_choice = ''local'' then System_local
      else if timezone_choice = ''market'' then
        (let symbol_upper = upper symbol
         in if symbol_upper \<in> set [''SPY'', ''QQQ'', ''IWM''] \<or> length symbol_upper \<le> 5
            then Tz ''US/Eastern''
            else Tz ''US/Eastern'')
      else Utc)"

section \<open>The file name as the specification words it\<close>

text \<open>
  The tokens of the file name: the duration without blanks, the time frame without blanks
  and with its unit abbreviated, and the contract month, which is present for the security
  type \<open>FUT\<close> with a month that is not empty.
\<close>

definition duration_token :: "string \<Rightarrow> string" where
  "duration_token duration = str_replace '' '' [] duration"

definition timeframe_token :: "string \<Rightarrow> string" where
  "timeframe_token timeframe =
     str_replace ''month'' ''M'' (str_replace ''week'' ''w'' (str_replace ''day'' ''d''
       (str_replace ''hour'' ''h'' (str_replace ''min'' ''m'' (str_replace ''mins'' ''m''
         (str_replace ''secs'' ''s'' (str_replace '' '' [] timeframe)))))))"

definition month_part :: "string \<Rightarrow> string option \<Rightarrow> string" where
  "month_part security_type future_contract_month =
     (case future_contract_month of
        None \<Rightarrow> []
      | Some m \<Rightarrow> if security_type = ''FUT'' \<and> m \<noteq> [] then ''_'' @ m else [])"

section \<open>The world of a run\<close>

text \<open>
  What a run does to the outside is a list of events, in order: what it prints, the prompt
  it reads an answer to, the calls to the data provider, and the file it writes. The
  arguments of \<open>Connect\<close> are host, port and client id; those of \<open>Req_historical_data\<close>
  are \<^verbatim>\<open>endDateTime\<close>, \<^verbatim>\<open>durationStr\<close>, \<^verbatim>\<open>barSizeSetting\<close>, \<^verbatim>\<open>whatToShow\<close> and \<^verbatim>\<open>useRTH\<close>.
\<close>

text \<open>
  A datetime series of pandas: its time zone, if it has one, and its instants in seconds
  (of UTC when the series has a zone). The date column of a data frame has the dtype
  datetime64, the dtype object (its cells as text), or another dtype.
\<close>

record series =
  series_tz :: "zone option"
  instants :: "int list"

datatype column = Datetime64 series | Object_column "string list" | Other_column "string list"

text \<open>
  A data frame with its date column and, row by row, the text of the columns Open, High,
  Low, Close and Volume, which the program never changes.
\<close>

record frame =
  date_name :: string
  date_column :: column
  value_rows :: "string list"

fun column_length :: "column \<Rightarrow> nat" where
  "column_length (Datetime64 s) = length (instants s)"
| "column_length (Object_column cells) = length cells"
| "column_length (Other_column cells) = length cells"

definition df_empty :: "frame \<Rightarrow> bool" where
  "df_empty df \<longleftrightarrow> column_length (date_column df) = 0"

datatype contract_spec =
    Stock string string string
  | Forex string
  | Future string string string string

record contract =
  con_symbol :: string
  con_local_symbol :: string
  con_exchange :: string
  con_id :: string

datatype event =
    Print string
  | Input string
  | Connect string nat nat
  | Qualify_contracts contract_spec
  | Req_historical_data string string string string bool
  | Disconnect
  | To_csv string frame
  | Traceback

datatype outcome = Returned | Raised exn

text \<open>
  The collaborators of a run, which the program does not define: the clock (read as one
  value for the whole run), the paths that exist, the lines the user types, the data
  provider (\<^verbatim>\<open>ib.connect\<close>, \<^verbatim>\<open>ib.qualifyContracts\<close>, \<^verbatim>\<open>ib.reqHistoricalData\<close>, \<^verbatim>\<open>util.df\<close>), and the
  library calls on dates and files (\<^verbatim>\<open>pd.to_datetime\<close>, \<^verbatim>\<open>strftime\<close> in a zone, \<^verbatim>\<open>tzname\<close>,
  \<^verbatim>\<open>os.path.getctime\<close> as the text shown, \<^verbatim>\<open>os.path.abspath\<close>, a failure of \<^verbatim>\<open>to_csv\<close>). A bar
  is the text of what the provider returned.
\<close>

type_synonym bar = string

record world =
  clock :: datetime
  files :: "string fset"
  stdin :: "string list"
  ctime_text :: "string \<Rightarrow> string"
  abspath :: "string \<Rightarrow> string"
  connect_error :: "exn option"
  qualify_contracts :: "contract_spec \<Rightarrow> exn + contract list"
  req_historical_data :: "exn + bar list"
  util_df :: "bar list \<Rightarrow> frame option"
  to_datetime :: "string list \<Rightarrow> exn + series"
  tz_strftime :: "zone \<Rightarrow> string \<Rightarrow> int \<Rightarrow> string"
  tzname :: "zone \<Rightarrow> string"
  to_csv_error :: "string \<Rightarrow> exn option"

text \<open>The arguments of \<^verbatim>\<open>fetch_and_save_historical_data\<close>.\<close>

record args =
  arg_symbol :: "string option"
  arg_timeframe :: "string option"
  arg_duration :: "string option"
  arg_output_filename :: "string option"
  arg_overwrite :: bool
  arg_timezone_choice :: string
  arg_start_date :: "string option"
  arg_end_date :: "string option"
  arg_include_extended_hours :: bool

definition nl :: string where "nl = [CHR 0x0A]"

definition quote :: string where "quote = [CHR 0x27]"

text \<open>\<^verbatim>\<open>str(e)\<close> of an exception, and \<^verbatim>\<open>str(b)\<close> of a bool.\<close>

fun exn_str :: "exn \<Rightarrow> string" where
  "exn_str (ValueError m) = m"
| "exn_str (TypeError m) = m"
| "exn_str (OverflowError m) = m"
| "exn_str (LookupError m) = m"
| "exn_str (PermissionError m) = m"
| "exn_str (OtherException m) = m"
| "exn_str _ = []"

definition str_bool :: "bool \<Rightarrow> string" where
  "str_bool b = (if b then ''True'' else ''False'')"

section \<open>Time zone conversion\<close>

text \<open>\<^verbatim>\<open>convert_datetime_column\<close>: a series without a zone is taken as UTC.\<close>

definition convert_datetime_column :: "series \<Rightarrow> zone \<Rightarrow> series" where
  "convert_datetime_column datetime_series target_timezone =
     (let datetime_series =
            (if series_tz datetime_series = None then datetime_series\<lparr>series_tz := Some Utc\<rparr>
             else if series_tz datetime_series \<noteq> Some Utc
             then datetime_series\<lparr>series_tz := Some Utc\<rparr>
             else datetime_series)
      in datetime_series\<lparr>series_tz := Some target_timezone\<rparr>)"

text \<open>\<^verbatim>\<open>format_timezone_aware_datetime\<close>\<close>

definition format_timezone_aware_datetime :: "world \<Rightarrow> series \<Rightarrow> zone \<Rightarrow> bool \<Rightarrow> string list" where
  "format_timezone_aware_datetime w datetime_series target_timezone is_intraday =
     (let converted_series = convert_datetime_column datetime_series target_timezone
      in if is_intraday
         then map (tz_strftime w (the (series_tz converted_series)) ''%Y-%m-%d %H:%M:%S'')
                (instants converted_series)
         else map (tz_strftime w (the (series_tz converted_series)) ''%Y-%m-%d'')
                (instants converted_series))"

text \<open>
  Lines 676 to 691 of \<^verbatim>\<open>fetch_and_save_historical_data\<close>: the date column is formatted when
  it is of datetime dtype; an object column is parsed as a whole and formatted, and left as
  it is, with one warning, when parsing or formatting raises ValueError or TypeError; any
  other column is left as it is.
\<close>

definition convert_date_column ::
  "world \<Rightarrow> column \<Rightarrow> zone \<Rightarrow> bool \<Rightarrow> string \<Rightarrow> event list \<times> (exn + column)" where
  "convert_date_column w col target_timezone is_intraday date_column_name =
     (case col of
        Datetime64 s \<Rightarrow>
          ([], Inr (Object_column (format_timezone_aware_datetime w s target_timezone is_intraday)))
      | Object_column cells \<Rightarrow>
          (case to_datetime w cells of
             Inr datetime_series \<Rightarrow>
               ([], Inr (Object_column
                         (format_timezone_aware_datetime w datetime_series target_timezone is_intraday)))
           | Inl e \<Rightarrow>
               (case e of
                  ValueError m \<Rightarrow>
                    ([Print (''Warning: '' @ date_column_name
                             @ '' column could not be parsed. Leaving as is.'')], Inr col)
                | TypeError m \<Rightarrow>
                    ([Print (''Warning: '' @ date_column_name
                             @ '' column could not be parsed. Leaving as is.'')], Inr col)
                | _ \<Rightarrow> ([], Inl e)))
      | Other_column cells \<Rightarrow> ([], Inr col))"

section \<open>File conflicts: \<^verbatim>\<open>handle_file_conflict\<close>\<close>

text \<open>
  The loop that asks for a choice. \<^verbatim>\<open>input\<close> takes the next line the user types and raises
  EOFError when there is none.
\<close>

fun prompt_loop :: "world \<Rightarrow> string \<Rightarrow> string list \<Rightarrow> event list \<times> (exn + string \<times> bool)" where
  "prompt_loop w filename [] = ([Input ''Enter choice [O/R/C]: ''], Inl EOFError)"
| "prompt_loop w filename (line # rest) =
     (let choice = upper (strip line)
      in if choice \<in> set [''O'', ''OVERWRITE'']
         then ([Input ''Enter choice [O/R/C]: '', Print (''Overwriting: '' @ filename)],
               Inr (filename, True))
         else if choice \<in> set [''R'', ''RENAME'']
         then (let new_filename = generate_unique_filename (files w) (clock w) filename
               in ([Input ''Enter choice [O/R/C]: '', Print (''Creating new file: '' @ new_filename)],
                   Inr (new_filename, True)))
         else if choice \<in> set [''C'', ''CANCEL'']
         then ([Input ''Enter choice [O/R/C]: '', Print ''Operation cancelled by user.''],
               Inr (filename, False))
         else (case prompt_loop w filename rest of
                 (events, result) \<Rightarrow>
                   (Input ''Enter choice [O/R/C]: ''
                      # Print ''Invalid choice. Please enter O, R, or C.'' # events,
                    result)))"

definition handle_file_conflict ::
  "world \<Rightarrow> string \<Rightarrow> bool \<Rightarrow> event list \<times> (exn + string \<times> bool)" where
  "handle_file_conflict w filename overwrite_flag =
     (if filename |\<notin>| files w then ([], Inr (filename, True))
      else if overwrite_flag
      then ([Print (''Overwriting existing file: '' @ filename)], Inr (filename, True))
      else (let formatted_time = ctime_text w filename
            in case prompt_loop w filename (stdin w) of
                 (events, result) \<Rightarrow>
                   ([Print (nl @ ''File conflict detected!''),
                     Print (''Output file '' @ quote @ filename @ quote
                            @ '' already exists (created: '' @ formatted_time @ '')''),
                     Print (''Full path: '' @ abspath w filename),
                     Print [],
                     Print ''Choose action:'',
                     Print ''  [O]verwrite - Replace the existing file'',
                     Print ''  [R]ename    - Create new file with timestamp suffix'',
                     Print ''  [C]ancel    - Abort the operation'',
                     Print []]
                    @ events,
                    result)))"

section \<open>The run: \<^verbatim>\<open>fetch_and_save_historical_data\<close>\<close>

text \<open>\<^verbatim>\<open>create_contract\<close>, called with a symbol and a security type.\<close>

definition create_contract :: "string \<Rightarrow> string \<Rightarrow> event list \<times> (exn + contract_spec)" where
  "create_contract target_symbol sec_type =
     ([Print (''Creating contract for '' @ target_symbol @ '' ('' @ sec_type @ '')...'')],
      if sec_type = ''STK'' then Inr (Stock target_symbol STOCK_EXCHANGE STOCK_CURRENCY)
      else if sec_type = ''CASH'' then Inr (Forex target_symbol)
      else if sec_type = ''FUT'' then
        (if FUTURE_LAST_TRADE_DATE_OR_CONTRACT_MONTH = [] \<or> FUTURE_EXCHANGE = []
         then Inl (ValueError
           ''For Futures (FUT), FUTURE_LAST_TRADE_DATE_OR_CONTRACT_MONTH and FUTURE_EXCHANGE must be specified.'')
         else Inr (Future target_symbol FUTURE_LAST_TRADE_DATE_OR_CONTRACT_MONTH FUTURE_EXCHANGE
                     FUTURE_CURRENCY))
      else Inl (ValueError (''Unsupported SECURITY_TYPE: '' @ sec_type @ ''. Please use '' @ quote
                  @ ''STK'' @ quote @ '', '' @ quote @ ''CASH'' @ quote @ '', or '' @ quote @ ''FUT''
                  @ quote @ ''.'')))"

text \<open>
  What is printed when \<^verbatim>\<open>to_csv\<close> raises PermissionError, before the exception is raised
  again.
\<close>

definition permission_denied_events :: "string \<Rightarrow> event list" where
  "permission_denied_events final_filename =
     [Print (nl @ ''ERROR: Permission denied while saving file: '' @ final_filename),
      Print ''Possible causes:'',
      Print ''  - File is currently open in Excel or another application'',
      Print ''  - Insufficient write permissions in the directory'',
      Print ''  - File is marked as read-only'',
      Print (nl @ ''Solutions:''),
      Print ''  - Close the file in any applications and try again'',
      Print ''  - Run the script as administrator'',
      Print ''  - Choose a different output directory'']"

text \<open>
  Lines 693 to 714: the conflict is handled, and the frame is written unless the user
  cancelled. The second component is the exception that leaves the block, if any.
\<close>

definition save_stage :: "world \<Rightarrow> frame \<Rightarrow> string \<Rightarrow> bool \<Rightarrow> event list \<times> exn option" where
  "save_stage w df_output output_filename overwrite =
     (case handle_file_conflict w output_filename overwrite of
        (events, Inl e) \<Rightarrow> (events, Some e)
      | (events, Inr (final_filename, should_proceed)) \<Rightarrow>
          if \<not> should_proceed
          then (events
                  @ [Print ''Data download was successful but file was not saved due to user cancellation.''],
                None)
          else (case to_csv_error w final_filename of
                  None \<Rightarrow>
                    (events
                       @ [To_csv final_filename df_output,
                          Print (''SUCCESS: Historical OHLCV data saved to: '' @ final_filename)],
                     None)
                | Some e \<Rightarrow>
                    (case e of
                       PermissionError m \<Rightarrow> (events @ permission_denied_events final_filename, Some e)
                     | _ \<Rightarrow> (events, Some e))))"

text \<open>What is printed when the provider returns no bars.\<close>

definition no_data_events :: "string \<Rightarrow> event list" where
  "no_data_events bar_size =
     [Print (nl @ ''No historical data received. This could be due to several reasons:''),
      Print ''  - No data available for the requested contract or period.'',
      Print ''  - Market data subscriptions might be required for this specific data.'',
      Print ''  - Incorrect contract details or parameters.'',
      Print (''  - '' @ bar_size
             @ '' data may not be available if the duration is too short or data restrictions apply.'')]
     @ (if bar_size \<in> set [''1 secs'', ''5 secs'', ''10 secs'', ''15 secs'', ''30 secs'']
        then [Print ''  - Remember: Bars 30 seconds or smaller older than 6 months are not available from IBKR.'']
        else [])"

text \<open>Lines 634 to 716: what is done with the bars received.\<close>

definition process_bars ::
  "world \<Rightarrow> bar list \<Rightarrow> string \<Rightarrow> string \<Rightarrow> string \<Rightarrow> string \<Rightarrow> bool \<Rightarrow> event list \<times> exn option" where
  "process_bars w bars bar_size timezone_choice target_symbol output_filename overwrite =
     (if bars = [] then (no_data_events bar_size, None)
      else
        (let received = [Print (nl @ ''Successfully received '' @ str_nat (length bars)
                                @ '' bars of data.'')];
             no_frame = [Print ''Data was received, but the resulting DataFrame is empty or None after processing.'']
         in case util_df w bars of
              None \<Rightarrow> (received @ no_frame, None)
            | Some df \<Rightarrow>
                if df_empty df then (received @ no_frame, None)
                else
                  (let is_intraday = is_intraday_timeframe bar_size;
                       target_timezone = get_target_timezone timezone_choice target_symbol;
                       date_column_name =
                         (if is_intraday
                          then ''DateTime_'' @ (if timezone_choice \<noteq> ''UTC''
                                               then tzname w target_timezone else ''UTC'')
                          else ''Date'')
                   in case convert_date_column w (date_column df) target_timezone is_intraday
                             date_column_name of
                        (converting, Inl e) \<Rightarrow> (received @ converting, Some e)
                      | (converting, Inr col) \<Rightarrow>
                          (case save_stage w
                                  \<lparr>date_name = date_column_name, date_column = col,
                                   value_rows = value_rows df\<rparr>
                                  output_filename overwrite of
                             (saving, raised) \<Rightarrow> (received @ converting @ saving, raised)))))"

text \<open>What is printed before the request is sent (lines 601 to 617).\<close>

definition request_events ::
  "world \<Rightarrow> contract \<Rightarrow> string \<Rightarrow> string \<Rightarrow> string \<Rightarrow> string \<Rightarrow> bool \<Rightarrow> string \<Rightarrow> bool
     \<Rightarrow> event list" where
  "request_events w qualified_contract target_symbol bar_size hist_duration end_datetime_str use_rth
       timezone_choice include_extended_hours =
     [Print (''Contract qualified: '' @ con_local_symbol qualified_contract
             @ '' on '' @ con_exchange qualified_contract
             @ '' (conId: '' @ con_id qualified_contract @ '')''),
      Print (nl @ ''Requesting historical data for '' @ con_symbol qualified_contract @ '':''),
      Print (''  Duration: '' @ hist_duration),
      Print (''  Bar size: '' @ bar_size),
      Print (''  Data type: '' @ WHAT_TO_SHOW),
      Print (''  Regular Trading Hours: '' @ str_bool use_rth)]
     @ (if include_extended_hours
        then [Print ''  Extended Hours: Included (pre-market and after-hours data)'']
        else [])
     @ (if end_datetime_str \<noteq> []
        then [Print (''  End DateTime: '' @ end_datetime_str)] else [])
     @ (if is_intraday_timeframe bar_size
        then [Print (''  Output timezone: '' @ timezone_choice @ '' (''
                @ (if timezone_choice \<noteq> ''UTC''
                   then tzname w (get_target_timezone timezone_choice target_symbol)
                   else ''UTC'') @ '')'')]
        else [])"

text \<open>Lines 590 to 632, after the connection is made, and then \<open>process_bars\<close>.\<close>

definition after_connect ::
  "world \<Rightarrow> string \<Rightarrow> string \<Rightarrow> string \<Rightarrow> string \<Rightarrow> bool \<Rightarrow> string \<Rightarrow> bool \<Rightarrow> string \<Rightarrow> bool
     \<Rightarrow> event list \<times> exn option" where
  "after_connect w target_symbol bar_size hist_duration end_datetime_str use_rth timezone_choice
       include_extended_hours output_filename overwrite =
     (case create_contract target_symbol SECURITY_TYPE of
        (creating, Inl e) \<Rightarrow> (creating, Some e)
      | (creating, Inr contract) \<Rightarrow>
          (let qualifying = creating @ [Print ''Qualifying contract...'', Qualify_contracts contract]
           in case qualify_contracts w contract of
                Inl e \<Rightarrow> (qualifying, Some e)
              | Inr [] \<Rightarrow>
                  (qualifying,
                   Some (LookupError (''Contract for '' @ TARGET_SYMBOL @ '' ('' @ SECURITY_TYPE
                      @ '') could not be qualified. ''
                      @ ''Please check symbol, security type, exchange, and other parameters.'')))
              | Inr (qualified_contract # _) \<Rightarrow>
                  (let requesting = qualifying
                         @ request_events w qualified_contract target_symbol bar_size hist_duration
                             end_datetime_str use_rth timezone_choice include_extended_hours
                         @ [Req_historical_data end_datetime_str hist_duration bar_size WHAT_TO_SHOW
                              use_rth]
                   in case req_historical_data w of
                        Inl e \<Rightarrow> (requesting, Some e)
                      | Inr bars \<Rightarrow>
                          (case process_bars w bars bar_size timezone_choice target_symbol
                                  output_filename overwrite of
                             (processing, raised) \<Rightarrow> (requesting @ processing, raised)))))"

text \<open>
  The body of the \<^verbatim>\<open>try\<close> statement: its events, the exception that leaves it, if any, and
  whether the connection was made.
\<close>

definition try_body ::
  "world \<Rightarrow> string \<Rightarrow> string \<Rightarrow> string \<Rightarrow> string \<Rightarrow> bool \<Rightarrow> string \<Rightarrow> bool \<Rightarrow> string \<Rightarrow> bool
     \<Rightarrow> event list \<times> exn option \<times> bool" where
  "try_body w target_symbol bar_size hist_duration end_datetime_str use_rth timezone_choice
       include_extended_hours output_filename overwrite =
     (let connecting =
            [Print (''Attempting to connect to IBKR at '' @ IB_HOST @ '':'' @ str_nat IB_PORT
                    @ '' with Client ID '' @ str_nat CLIENT_ID @ ''...''),
             Connect IB_HOST IB_PORT CLIENT_ID]
      in case connect_error w of
           Some e \<Rightarrow> (connecting, Some e, False)
         | None \<Rightarrow>
             (case after_connect w target_symbol bar_size hist_duration end_datetime_str use_rth
                     timezone_choice include_extended_hours output_filename overwrite of
                (events, raised) \<Rightarrow>
                  (connecting @ [Print ''Successfully connected to IBKR.''] @ events, raised, True)))"

text \<open>
  The \<^verbatim>\<open>except\<close> clauses, in their order: what the clause that catches the exception prints,
  and the exception that goes on when none catches it (KeyboardInterrupt is no
  \<^verbatim>\<open>Exception\<close>). A PermissionError from \<^verbatim>\<open>to_csv\<close>, raised again by the inner clause, is caught
  by the last clause here.
\<close>

fun handle_exception :: "exn \<Rightarrow> event list \<times> outcome" where
  "handle_exception ConnectionRefusedError =
     ([Print (nl @ ''ERROR: Connection refused. Ensure IB Gateway or TWS is running on '' @ IB_HOST
              @ '':'' @ str_nat IB_PORT @ '' and API access is enabled.'')], Returned)"
| "handle_exception TimeoutError =
     ([Print (nl @ ''ERROR: Connection to IBKR timed out. Check network or if TWS/Gateway is responsive.'')],
      Returned)"
| "handle_exception (LookupError m) = ([Print (nl @ ''ERROR: '' @ m)], Returned)"
| "handle_exception (ValueError m) = ([Print (nl @ ''ERROR: '' @ m)], Returned)"
| "handle_exception KeyboardInterrupt = ([], Raised KeyboardInterrupt)"
| "handle_exception e =
     ([Print (nl @ ''An unexpected error occurred: '' @ exn_str e), Traceback], Returned)"

text \<open>The \<^verbatim>\<open>finally\<close> clause.\<close>

definition finally_block :: "bool \<Rightarrow> event list" where
  "finally_block connected =
     (if connected
      then [Print (nl @ ''Disconnecting from IBKR...''), Disconnect, Print ''Disconnected.'']
      else [Print (nl @ ''No active connection to disconnect or connection was not established.'')])"

text \<open>What is printed for the mode of the request (lines 561 to 567).\<close>

fun date_info_events :: "processed_info \<Rightarrow> event list" where
  "date_info_events (Date_range s e c) =
     [Print (''Date range mode: '' @ s @ '' to '' @ e), Print (''Calculated duration: '' @ c)]"
| "date_info_events (Single_day t d) = [Print (''Single day mode: '' @ t)]"
| "date_info_events (Duration_with_end e d) =
     [Print (''Duration with end date: '' @ d @ '' ending at '' @ e)]"
| "date_info_events (Duration_only d) = []"

text \<open>
  Lines 560 to 734, once the request window is resolved: the warnings, the file name, the
  \<^verbatim>\<open>try\<close> statement with its \<^verbatim>\<open>except\<close> and \<^verbatim>\<open>finally\<close> clauses.
\<close>

definition run_resolved ::
  "world \<Rightarrow> args \<Rightarrow> string \<Rightarrow> string \<Rightarrow> string \<Rightarrow> string \<Rightarrow> processed_info
     \<Rightarrow> event list \<times> outcome" where
  "run_resolved w a target_symbol bar_size end_datetime_str hist_duration date_info =
     (let use_rth = \<not> arg_include_extended_hours a;
          warnings = validate_timeframe_duration bar_size hist_duration;
          output_filename =
            (case arg_output_filename a of
               Some f \<Rightarrow> f
             | None \<Rightarrow>
                 generate_filename target_symbol SECURITY_TYPE hist_duration bar_size
                   (if SECURITY_TYPE = ''FUT''
                    then Some FUTURE_LAST_TRADE_DATE_OR_CONTRACT_MONTH else None)
                   (arg_include_extended_hours a))
      in case try_body w target_symbol bar_size hist_duration end_datetime_str use_rth
                (arg_timezone_choice a) (arg_include_extended_hours a) output_filename
                (arg_overwrite a) of
           (events, raised, connected) \<Rightarrow>
             (case raised of
                None \<Rightarrow>
                  (date_info_events date_info @ map Print warnings @ events
                     @ finally_block connected, Returned)
              | Some e \<Rightarrow>
                  (case handle_exception e of
                     (handling, result) \<Rightarrow>
                       (date_info_events date_info @ map Print warnings @ events @ handling
                          @ finally_block connected, result))))"

text \<open>
  \<^verbatim>\<open>fetch_and_save_historical_data\<close>: the events of the run and whether the function returns
  or an exception leaves it. A ValueError of the resolver is printed and the function
  returns; any other exception of the resolver leaves the function.
\<close>

definition fetch_and_save_historical_data :: "world \<Rightarrow> args \<Rightarrow> event list \<times> outcome" where
  "fetch_and_save_historical_data w a =
     (let target_symbol = (case arg_symbol a of Some s \<Rightarrow> s | None \<Rightarrow> TARGET_SYMBOL);
          bar_size = (case arg_timeframe a of Some t \<Rightarrow> t | None \<Rightarrow> ''1 day'');
          default_duration = (case arg_duration a of Some d \<Rightarrow> d | None \<Rightarrow> HISTORY_DURATION)
      in case process_date_arguments (clock w) (arg_start_date a) (arg_end_date a) default_duration
                (arg_include_extended_hours a) of
           Inl e \<Rightarrow>
             (case e of
                ValueError m \<Rightarrow> ([Print (''ERROR: '' @ m)], Returned)
              | _ \<Rightarrow> ([], Raised e))
         | Inr (end_datetime_str, hist_duration, date_info) \<Rightarrow>
             run_resolved w a target_symbol bar_size end_datetime_str hist_duration date_info)"

text \<open>What \<^verbatim>\<open>main\<close> prints before the run.\<close>

definition banner :: "args \<Rightarrow> event list" where
  "banner a =
     [Print ''IBKR Historical Data Downloader'',
      Print ''================================'',
      Print (''Symbol: '' @ (case arg_symbol a of Some s \<Rightarrow> s | None \<Rightarrow> ''None'')),
      Print (''Timeframe: '' @ (case arg_timeframe a of Some t \<Rightarrow> t | None \<Rightarrow> ''None'')),
      Print (''Duration: '' @ (case arg_duration a of Some d \<Rightarrow> d | None \<Rightarrow> ''None'')),
      Print (''Timezone: '' @ arg_timezone_choice a)]
     @ (case arg_start_date a of
          Some s \<Rightarrow> if s \<noteq> [] then [Print (''Start date: '' @ s)] else []
        | None \<Rightarrow> [])
     @ (case arg_end_date a of
          Some s \<Rightarrow> if s \<noteq> [] then [Print (''End date: '' @ s)] else []
        | None \<Rightarrow> [])
     @ (if arg_include_extended_hours a then [Print ''Extended hours: Enabled''] else [])
     @ (case arg_output_filename a of
          Some s \<Rightarrow> if s \<noteq> [] then [Print (''Output file: '' @ s)] else []
        | None \<Rightarrow> [])
     @ [Print []]"

text \<open>
  \<^verbatim>\<open>main\<close>, with the arguments already parsed: the events of the process and its exit
  status.
\<close>

definition main :: "world \<Rightarrow> args \<Rightarrow> event list \<times> nat" where
  "main w a =
     (case fetch_and_save_historical_data w a of
        (events, Returned) \<Rightarrow> (banner a @ events, 0)
      | (events, Raised e) \<Rightarrow>
          (case e of
             KeyboardInterrupt \<Rightarrow>
               (banner a @ events @ [Print (nl @ ''Operation cancelled by user.'')], 1)
           | _ \<Rightarrow> (banner a @ events @ [Print (''FATAL ERROR: '' @ exn_str e)], 1)))"

text \<open>The events that reach the data provider, and the event that writes the file.\<close>

fun is_network :: "event \<Rightarrow> bool" where
  "is_network (Connect h p c) = True"
| "is_network (Qualify_contracts c) = True"
| "is_network (Req_historical_data e d b s r) = True"
| "is_network Disconnect = True"
| "is_network _ = False"

fun is_write :: "event \<Rightarrow> bool" where
  "is_write (To_csv f d) = True"
| "is_write _ = False"

fun is_prompt :: "event \<Rightarrow> bool" where
  "is_prompt (Input p) = True"
| "is_prompt _ = False"

text \<open>The report of a file that was saved, and the report of a write that was skipped.\<close>

fun is_saved_report :: "event \<Rightarrow> bool" where
  "is_saved_report (Print m) = (take 42 m = ''SUCCESS: Historical OHLCV data saved to: '')"
| "is_saved_report _ = False"






definition plain :: "event list \<Rightarrow> bool" where
  "plain evs \<longleftrightarrow>
     \<not> list_ex is_prompt evs \<and> \<not> list_ex is_write evs \<and> \<not> list_ex is_saved_report evs"


section \<open>An example world\<close>

text \<open>
  A world for the examples: the provider returns two bars whose dates are text, the second
  of which is no date; \<^verbatim>\<open>pd.to_datetime\<close> parses a column when every cell is a date and raises
  ValueError otherwise; the daily file of SPY exists already, and the user types \<open>x\<close> and
  then \<open>c\<close>.
\<close>

definition example_instant :: "string \<Rightarrow> int option" where
  "example_instant cell = (if cell = ''2024-01-15 14:30:00'' then Some 1705329000 else None)"

definition example_to_datetime :: "string list \<Rightarrow> exn + series" where
  "example_to_datetime cells =
     (if list_all (\<lambda>c. example_instant c \<noteq> None) cells
      then Inr \<lparr>series_tz = None, instants = map (\<lambda>c. the (example_instant c)) cells\<rparr>
      else Inl (ValueError ''Unknown datetime string format, unable to parse''))"

definition example_strftime :: "zone \<Rightarrow> string \<Rightarrow> int \<Rightarrow> string" where
  "example_strftime z f i =
     (if z = Tz ''US/Eastern'' \<and> i = 1705329000
      then (if f = ''%Y-%m-%d'' then ''2024-01-15'' else ''2024-01-15 09:30:00'')
      else ''1970-01-01'')"

definition example_frame :: "string list \<Rightarrow> frame" where
  "example_frame cells =
     \<lparr>date_name = ''date'', date_column = Object_column cells,
      value_rows = map (\<lambda>c. ''470.1,471.5,469.8,471.0,1200300'') cells\<rparr>"

definition example_world :: world where
  "example_world =
     \<lparr>clock = mk_datetime 2025 3 4 10 20 30,
      files = {|''SPY_STK_1Y_1d_OHLCV.csv''|},
      stdin = [''x'', '' c ''],
      ctime_text = (\<lambda>p. ''2025-03-01 09:00:00''),
      abspath = (\<lambda>p. ''/data/'' @ p),
      connect_error = None,
      qualify_contracts = (\<lambda>c. Inr [\<lparr>con_symbol = ''SPY'', con_local_symbol = ''SPY'',
                                       con_exchange = ''SMART'', con_id = ''756733''\<rparr>]),
      req_historical_data = Inr [''bar 1'', ''bar 2''],
      util_df = (\<lambda>bars. Some (example_frame [''2024-01-15 14:30:00'', ''not a date''])),
      to_datetime = example_to_datetime,
      tz_strftime = example_strftime,
      tzname = (\<lambda>z. ''EST''),
      to_csv_error = (\<lambda>p. None)\<rparr>"

definition example_args :: args where
  "example_args =
     \<lparr>arg_symbol = None, arg_timeframe = None, arg_duration = None, arg_output_filename = None,
      arg_overwrite = False, arg_timezone_choice = ''market'', arg_start_date = None,
      arg_end_date = None, arg_include_extended_hours = False\<rparr>"


section \<open>Dates: parsed values, elapsed days, the following day\<close>

lemma first_match_micro: "first_match f s = Some (dt, r) \<Longrightarrow> microsecond dt = 0"
  by (cases f) (auto simp: first_match_def split: list.splits)
lemma strptime_valid: "strptime s f = Some dt \<Longrightarrow> valid_datetime dt \<and> microsecond dt = 0"
  by (auto simp: strptime_def split: option.splits if_splits dest: first_match_micro)
lemma try_formats_valid: "try_formats s fs = Some dt \<Longrightarrow> valid_datetime dt \<and> microsecond dt = 0"
  by (induction fs) (auto split: option.splits dest: strptime_valid)
lemma parse_date_string_valid:
  "parse_date_string s = Inr (Some dt) \<Longrightarrow> valid_datetime dt \<and> microsecond dt = 0 \<and> s \<noteq> []"
  unfolding parse_date_string_def
  by (cases "s = []"; cases "try_formats s [Fmt_ymd_hms, Fmt_ymd_hm, Fmt_ymd]")
     (use try_formats_valid in \<open>simp_all del: try_formats.simps\<close>)

lemma micros_of_day_bound: "valid_datetime dt \<Longrightarrow> micros_of_day dt < 86400000000"
  by (simp add: valid_datetime_def micros_of_day_def seconds_of_day_def)

lemma floor_day_shift:
  fixes k m :: int
  assumes "- 86400000000 < m" "m < 86400000000"
  shows "(k * 86400000000 + m) div 86400000000 = k - (if m < 0 then 1 else 0)"
proof (cases "m < 0")
  case True
  have "(k * 86400000000 + m) = (k - 1) * 86400000000 + (m + 86400000000)" by (simp add: algebra_simps)
  moreover have "((k - 1) * 86400000000 + (m + 86400000000)) div 86400000000 = k - 1"
    using assms True by (simp add: div_pos_pos_trivial)
  ultimately show ?thesis using True by simp
next
  case False
  then show ?thesis using assms by (simp add: div_pos_pos_trivial)
qed

lemma timedelta_days_calendar:
  assumes "valid_datetime a" "valid_datetime b"
  shows "timedelta_days b a =
           int (toordinal b) - int (toordinal a) - (if micros_of_day b < micros_of_day a then 1 else 0)"
proof -
  have "micros_of_day a < 86400000000" "micros_of_day b < 86400000000"
    using assms by (simp_all add: micros_of_day_bound)
  then have "- 86400000000 < int (micros_of_day b) - int (micros_of_day a)"
       "int (micros_of_day b) - int (micros_of_day a) < 86400000000" by linarith+
  from floor_day_shift[OF this, of "int (toordinal b) - int (toordinal a)"]
  show ?thesis unfolding timedelta_days_def by auto
qed

lemma leap_step_arith:
  fixes x a b c :: nat
  assumes "b \<le> a" "p100 \<longrightarrow> p4" "p400 \<longrightarrow> p100"
  shows "Suc x * 365 + (a + (if p4 then 1 else 0)) - (b + (if p100 then 1 else 0))
            + (c + (if p400 then 1 else 0))
         = x * 365 + a - b + c + (if p4 \<and> (\<not> p100 \<or> p400) then 366 else 365)"
  using assms by (cases p4; cases p100; cases p400; simp)

lemma days_before_year_Suc:
  assumes "1 \<le> y"
  shows "days_before_year (Suc y) = days_before_year y + (if is_leap y then 366 else 365)"
proof -
  from assms obtain x where y: "y = Suc x" by (cases y) auto
  have d: "x div 100 \<le> x div 4" by (rule div_le_mono2) simp_all
  have e: "Suc x mod 100 = 0 \<longrightarrow> Suc x mod 4 = 0"
  proof
    assume "Suc x mod 100 = 0"
    then have "100 dvd Suc x" by (simp add: mod_eq_0_iff_dvd)
    moreover have "(4::nat) dvd 100" by simp
    ultimately have "4 dvd Suc x" by (rule dvd_trans[rotated])
    then show "Suc x mod 4 = 0" by (simp add: mod_eq_0_iff_dvd)
  qed
  have f: "Suc x mod 400 = 0 \<longrightarrow> Suc x mod 100 = 0"
  proof
    assume "Suc x mod 400 = 0"
    then have "400 dvd Suc x" by (simp add: mod_eq_0_iff_dvd)
    moreover have "(100::nat) dvd 400" by simp
    ultimately have "100 dvd Suc x" by (rule dvd_trans[rotated])
    then show "Suc x mod 100 = 0" by (simp add: mod_eq_0_iff_dvd)
  qed
  have "days_before_year (Suc (Suc x)) =
          Suc x * 365 + (x div 4 + (if Suc x mod 4 = 0 then 1 else 0))
            - (x div 100 + (if Suc x mod 100 = 0 then 1 else 0))
            + (x div 400 + (if Suc x mod 400 = 0 then 1 else 0))"
    by (simp add: days_before_year_def div_Suc)
  also have "\<dots> = x * 365 + x div 4 - x div 100 + x div 400
                  + (if Suc x mod 4 = 0 \<and> (\<not> Suc x mod 100 = 0 \<or> Suc x mod 400 = 0) then 366 else 365)"
    by (rule leap_step_arith[OF d e f])
  also have "\<dots> = days_before_year (Suc x) + (if is_leap (Suc x) then 366 else 365)"
    by (simp add: days_before_year_def is_leap_def)
  finally show ?thesis by (simp add: y)
qed

lemma month_cases: "1 \<le> m \<Longrightarrow> m \<le> 12 \<Longrightarrow> m \<in> {1,2,3,4,5,6,7,8,9,10,11,12::nat}"
  by simp arith

lemma days_before_month_Suc:
  assumes "1 \<le> m" "m \<le> 11"
  shows "days_before_month y (Suc m) = days_before_month y m + days_in_month y m"
proof -
  have "m \<in> {1,2,3,4,5,6,7,8,9,10,11,12}" using assms by (intro month_cases) simp_all
  with assms(2) have "m \<in> {1,2,3,4,5,6,7,8,9,10,11}" by auto
  then show ?thesis
    by (elim insertE emptyE; simp add: days_before_month_def days_in_month_def)
qed

lemma days_in_month_pos: "1 \<le> days_in_month y m"
  by (simp add: days_in_month_def)

lemma add_one_day_same_month:
  assumes "valid_datetime dt" "day dt < days_in_month (year dt) (month dt)"
  shows "add_one_day dt = Inr (dt\<lparr>day := day dt + 1\<rparr>)"
    and "valid_datetime (dt\<lparr>day := day dt + 1\<rparr>)"
    and "toordinal (dt\<lparr>day := day dt + 1\<rparr>) = toordinal dt + 1"
  using assms by (simp_all add: add_one_day_def valid_datetime_def toordinal_def)

lemma add_one_day_next_month:
  assumes "valid_datetime dt" "\<not> day dt < days_in_month (year dt) (month dt)" "month dt < 12"
  shows "add_one_day dt = Inr (dt\<lparr>month := month dt + 1, day := 1\<rparr>)"
    and "valid_datetime (dt\<lparr>month := month dt + 1, day := 1\<rparr>)"
    and "toordinal (dt\<lparr>month := month dt + 1, day := 1\<rparr>) = toordinal dt + 1"
proof -
  show "add_one_day dt = Inr (dt\<lparr>month := month dt + 1, day := 1\<rparr>)"
    using assms by (simp add: add_one_day_def)
  show "valid_datetime (dt\<lparr>month := month dt + 1, day := 1\<rparr>)"
    using assms days_in_month_pos[of "year dt" "Suc (month dt)"] by (simp add: valid_datetime_def)
  have d: "day dt = days_in_month (year dt) (month dt)"
    using assms by (simp add: valid_datetime_def)
  have "days_before_month (year dt) (Suc (month dt))
          = days_before_month (year dt) (month dt) + days_in_month (year dt) (month dt)"
    using assms by (intro days_before_month_Suc) (simp_all add: valid_datetime_def)
  then show "toordinal (dt\<lparr>month := month dt + 1, day := 1\<rparr>) = toordinal dt + 1"
    using d by (simp add: toordinal_def)
qed

lemma add_one_day_next_year:
  assumes "valid_datetime dt" "\<not> day dt < days_in_month (year dt) (month dt)" "\<not> month dt < 12"
    "year dt < 9999"
  shows "add_one_day dt = Inr (dt\<lparr>year := year dt + 1, month := 1, day := 1\<rparr>)"
    and "valid_datetime (dt\<lparr>year := year dt + 1, month := 1, day := 1\<rparr>)"
    and "toordinal (dt\<lparr>year := year dt + 1, month := 1, day := 1\<rparr>) = toordinal dt + 1"
proof -
  have m: "month dt = 12" using assms by (simp add: valid_datetime_def)
  have d: "day dt = 31" using assms m by (simp add: valid_datetime_def days_in_month_def)
  show "add_one_day dt = Inr (dt\<lparr>year := year dt + 1, month := 1, day := 1\<rparr>)"
    using assms by (simp add: add_one_day_def)
  show "valid_datetime (dt\<lparr>year := year dt + 1, month := 1, day := 1\<rparr>)"
    using assms by (simp add: valid_datetime_def days_in_month_def)
  have "days_before_year (Suc (year dt))
          = days_before_year (year dt) + (if is_leap (year dt) then 366 else 365)"
    using assms by (intro days_before_year_Suc) (simp add: valid_datetime_def)
  then show "toordinal (dt\<lparr>year := year dt + 1, month := 1, day := 1\<rparr>) = toordinal dt + 1"
    using m d by (simp add: toordinal_def days_before_month_def)
qed

lemma add_one_day_overflow:
  assumes "valid_datetime dt"
  shows "add_one_day dt = Inl e \<longleftrightarrow>
           e = OverflowError ''date value out of range'' \<and> year dt = 9999 \<and> month dt = 12 \<and> day dt = 31"
  using assms by (auto simp add: add_one_day_def valid_datetime_def days_in_month_def split: if_splits)

lemma add_one_day_ordinal:
  assumes "valid_datetime dt" "add_one_day dt = Inr nd"
  shows "valid_datetime nd \<and> toordinal nd = toordinal dt + 1 \<and>
         hour nd = hour dt \<and> minute nd = minute dt \<and> second nd = second dt \<and> microsecond nd = microsecond dt"
proof (cases "day dt < days_in_month (year dt) (month dt)")
  case True
  from add_one_day_same_month[OF assms(1) True] assms(2) show ?thesis by auto
next
  case F1: False
  show ?thesis
  proof (cases "month dt < 12")
    case True
    from add_one_day_next_month[OF assms(1) F1 True] assms(2) show ?thesis by auto
  next
    case F2: False
    show ?thesis
    proof (cases "year dt < 9999")
      case True
      from add_one_day_next_year[OF assms(1) F1 F2 True] assms(2) show ?thesis by auto
    next
      case False
      with F1 F2 assms(2) show ?thesis by (simp add: add_one_day_def)
    qed
  qed
qed


section \<open>The request window: helper facts\<close>

lemma range_duration_str_spec: "range_duration_str n = spec_duration_string n"
  by (simp add: range_duration_str_def spec_duration_string_def str_int_def str_nat.simps digit_char_def)

lemma strftime_regular_close: "strftime_ibkr (replace_hms dt 16 0 0) = fmt_date dt @ '' 16:00:00''"
  by (simp add: strftime_ibkr_def fmt_date_def fmt_time_def replace_hms_def zpad_def str_nat.simps digit_char_def)

lemma strftime_extended_close: "strftime_ibkr (replace_hms dt 2 0 0) = fmt_date dt @ '' 02:00:00''"
  by (simp add: strftime_ibkr_def fmt_date_def fmt_time_def replace_hms_def zpad_def str_nat.simps digit_char_def)

lemma strftime_ibkr_nonempty: "strftime_ibkr dt \<noteq> []"
  by (simp add: strftime_ibkr_def)

lemma format_ibkr_datetime_nonempty: "format_ibkr_datetime eth dt h = Inr ts \<Longrightarrow> ts \<noteq> []"
  by (auto simp: format_ibkr_datetime_def strftime_ibkr_nonempty split: if_splits sum.splits)

lemma session_close_regular:
  "format_ibkr_datetime False dt False = Inr ts \<Longrightarrow> session_close_timestamp False dt ts"
  by (simp add: format_ibkr_datetime_def session_close_timestamp_def strftime_regular_close)

lemma session_close_extended:
  assumes "valid_datetime dt" "format_ibkr_datetime True dt False = Inr ts"
  shows "session_close_timestamp True dt ts"
proof -
  from assms(2) obtain nd where nd: "add_one_day dt = Inr nd" "ts = strftime_ibkr (replace_hms nd 2 0 0)"
    by (auto simp: format_ibkr_datetime_def split: sum.splits)
  from add_one_day_ordinal[OF assms(1) nd(1)] nd(2) show ?thesis
    unfolding session_close_timestamp_def by (auto simp: strftime_extended_close)
qed

lemmas parse_eval = parse_date_string_def strptime_def first_match_def match_ymd_hms_def
  match_ymd_hm_def match_ymd_def re_m_def re_d_def re_H_def re_M_def re_S_def is_digit_def
  in_range_def digit_val_def is_space_def valid_datetime_def days_in_month_def is_leap_def

lemmas fmt_eval = strftime_ibkr_def fmt_date_def fmt_time_def zpad_def str_nat.simps
  digit_char_def replace_hms_def str_int_def

lemmas ord_eval = toordinal_def days_before_year_def days_before_month_def is_leap_def
  micros_of_day_def seconds_of_day_def timedelta_days_def inclusive_calendar_days_def

lemmas resolver_eval = process_date_arguments_def parse_arg_def format_ibkr_datetime_def
  time_not_min_def dt_gt_def dt_key_def range_duration_str_def spec_duration_string_def
  add_one_day_def Let_def

lemma parse_arg_Some: "parse_date_string s = Inr (Some dt) \<Longrightarrow> parse_arg (Some s) = Inr (Some dt)"
  using parse_date_string_valid[of s dt] by (simp add: parse_arg_def)

lemma parse_arg_None [simp]: "parse_arg None = Inr None"
  by (simp add: parse_arg_def)

lemma pda_date_range:
  assumes "parse_date_string s = Inr (Some sd)" "parse_date_string e = Inr (Some ed)"
  shows "process_date_arguments now (Some s) (Some e) d eth =
           (if dt_gt sd ed then Inl (ValueError ''Start date cannot be after end date'')
            else case format_ibkr_datetime eth ed (time_not_min ed) of
                   Inl x \<Rightarrow> Inl x
                 | Inr ts \<Rightarrow> Inr (ts, range_duration_str (timedelta_days ed sd + 1),
                              Date_range s e (range_duration_str (timedelta_days ed sd + 1))))"
  by (simp add: process_date_arguments_def parse_arg_Some[OF assms(1)] parse_arg_Some[OF assms(2)] Let_def
      split: sum.splits)

lemma pda_single_day:
  assumes "parse_date_string s = Inr (Some sd)"
  shows "process_date_arguments now (Some s) None d eth =
           (case (if time_not_min sd then Inr (strftime_ibkr sd)
                  else if eth then format_ibkr_datetime True sd False
                  else Inr (strftime_ibkr (replace_hms sd 16 0 0))) of
              Inl x \<Rightarrow> Inl x
            | Inr ts \<Rightarrow> Inr (ts, ''1 D'', Single_day s ''1 D''))"
  by (simp add: process_date_arguments_def parse_arg_Some[OF assms(1)] Let_def format_ibkr_datetime_def
      split: sum.splits)

lemma pda_duration_with_end:
  assumes "parse_date_string e = Inr (Some ed)"
  shows "process_date_arguments now None (Some e) d eth =
           (case format_ibkr_datetime eth ed (time_not_min ed) of
              Inl x \<Rightarrow> Inl x
            | Inr ts \<Rightarrow> Inr (ts, d, Duration_with_end e d))"
  by (simp add: process_date_arguments_def parse_arg_Some[OF assms(1)] Let_def split: sum.splits)

lemma pda_duration_only:
  "process_date_arguments now None None d eth =
           (case format_ibkr_datetime eth now False of
              Inl x \<Rightarrow> Inl x
            | Inr ts \<Rightarrow> Inr (ts, d, Duration_only d))"
  by (simp add: process_date_arguments_def Let_def split: sum.splits)

lemma format_ibkr_datetime_total:
  assumes "valid_datetime dt"
  shows "(eth \<and> \<not> h \<and> year dt = 9999 \<and> month dt = 12 \<and> day dt = 31
            \<and> format_ibkr_datetime eth dt h = Inl (OverflowError ''date value out of range''))
         \<or> (\<not> (eth \<and> \<not> h \<and> year dt = 9999 \<and> month dt = 12 \<and> day dt = 31)
            \<and> (\<exists>ts. format_ibkr_datetime eth dt h = Inr ts))"
proof (cases "add_one_day dt")
  case (Inl x)
  with add_one_day_overflow[OF assms, of x] show ?thesis
    by (auto simp: format_ibkr_datetime_def)
next
  case (Inr nd)
  with add_one_day_overflow[OF assms, of "OverflowError ''date value out of range''"] show ?thesis
    by (auto simp: format_ibkr_datetime_def)
qed

lemma parsed_time_order:
  assumes "microsecond a = 0" "microsecond b = 0"
  shows "micros_of_day b < micros_of_day a \<longleftrightarrow> seconds_of_day b < seconds_of_day a"
  using assms by (simp add: micros_of_day_def)

lemma parse_arg_valid:
  "parse_arg a = Inr (Some dt) \<Longrightarrow> valid_datetime dt \<and> microsecond dt = 0"
  by (auto simp: parse_arg_def split: option.splits if_splits dest: parse_date_string_valid)

lemma pda_parsed:
  assumes "parse_arg a = Inr sdo" "parse_arg b = Inr edo"
  shows "process_date_arguments now a b d eth =
    (case (sdo, edo) of
       (Some sd, Some ed) \<Rightarrow>
         if dt_gt sd ed then Inl (ValueError ''Start date cannot be after end date'')
         else (case format_ibkr_datetime eth ed (time_not_min ed) of
                 Inl x \<Rightarrow> Inl x
               | Inr ts \<Rightarrow> Inr (ts, range_duration_str (timedelta_days ed sd + 1),
                            Date_range (the a) (the b) (range_duration_str (timedelta_days ed sd + 1))))
     | (Some sd, None) \<Rightarrow>
         (case (if time_not_min sd then Inr (strftime_ibkr sd)
                else if eth then format_ibkr_datetime True sd False
                else Inr (strftime_ibkr (replace_hms sd 16 0 0))) of
            Inl x \<Rightarrow> Inl x
          | Inr ts \<Rightarrow> Inr (ts, ''1 D'', Single_day (the a) ''1 D''))
     | (None, Some ed) \<Rightarrow>
         (case format_ibkr_datetime eth ed (time_not_min ed) of
            Inl x \<Rightarrow> Inl x
          | Inr ts \<Rightarrow> Inr (ts, d, Duration_with_end (the b) d))
     | (None, None) \<Rightarrow>
         (case format_ibkr_datetime eth now False of
            Inl x \<Rightarrow> Inl x
          | Inr ts \<Rightarrow> Inr (ts, d, Duration_only d)))"
  by (simp add: process_date_arguments_def assms Let_def format_ibkr_datetime_def
      split: sum.splits option.splits)

lemma pda_parse_error_start: "parse_arg a = Inl x \<Longrightarrow> process_date_arguments now a b d eth = Inl x"
  by (simp add: process_date_arguments_def)

lemma pda_parse_error_end:
  "parse_arg a = Inr sdo \<Longrightarrow> parse_arg b = Inl x \<Longrightarrow> process_date_arguments now a b d eth = Inl x"
  by (simp add: process_date_arguments_def)

lemma format_rule:
  assumes "valid_datetime dt" "format_ibkr_datetime eth dt h = Inr ts"
  shows "if h then ts = fmt_date dt @ '' '' @ fmt_time dt else session_close_timestamp eth dt ts"
proof (cases h)
  case True
  with assms(2) show ?thesis by (simp add: format_ibkr_datetime_def strftime_ibkr_def)
next
  case False
  with assms session_close_regular[of dt ts] session_close_extended[of dt ts]
  show ?thesis by (cases eth) simp_all
qed

lemma single_day_rule:
  assumes "valid_datetime sd"
    "(if time_not_min sd then Inr (strftime_ibkr sd)
      else if eth then format_ibkr_datetime True sd False
      else Inr (strftime_ibkr (replace_hms sd 16 0 0))) = Inr ts"
  shows "if time_not_min sd then ts = fmt_date sd @ '' '' @ fmt_time sd
         else session_close_timestamp eth sd ts"
proof (cases "time_not_min sd")
  case True
  with assms(2) show ?thesis by (simp add: strftime_ibkr_def)
next
  case False
  show ?thesis
  proof (cases eth)
    case True
    with False assms session_close_extended[of sd ts] show ?thesis by simp
  next
    case F: False
    with False assms(2) show ?thesis
      by (simp add: strftime_regular_close session_close_timestamp_def)
  qed
qed

lemma anchor_rule_aux:
  assumes "valid_datetime now" and "process_date_arguments now a b d eth = Inr (ts, dur, info)"
  shows "if snd (request_anchor now a b)
         then ts = fmt_date (fst (request_anchor now a b)) @ '' ''
                     @ fmt_time (fst (request_anchor now a b))
         else session_close_timestamp eth (fst (request_anchor now a b)) ts"
proof -
  from assms(2) obtain sdo where pa: "parse_arg a = Inr sdo"
    by (cases "parse_arg a") (simp_all add: pda_parse_error_start)
  from assms(2) pa obtain edo where pb: "parse_arg b = Inr edo"
    by (cases "parse_arg b") (simp_all add: pda_parse_error_end)
  note P = pda_parsed[OF pa pb, of now d eth]
  show ?thesis
  proof (cases edo)
    case (Some ed)
    then have v: "valid_datetime ed" using parse_arg_valid pb by blast
    have anchor: "request_anchor now a b = (ed, time_not_min ed)"
      by (simp add: request_anchor_def pb Some)
    from assms(2) have "format_ibkr_datetime eth ed (time_not_min ed) = Inr ts"
      unfolding P Some by (cases sdo) (auto split: sum.splits if_splits)
    from format_rule[OF v this] show ?thesis by (simp add: anchor)
  next
    case None
    show ?thesis
    proof (cases sdo)
      case (Some sd)
      then have v: "valid_datetime sd" using parse_arg_valid pa by blast
      have anchor: "request_anchor now a b = (sd, time_not_min sd)"
        by (simp add: request_anchor_def pa pb Some None)
      from assms(2) have "(if time_not_min sd then Inr (strftime_ibkr sd)
                else if eth then format_ibkr_datetime True sd False
                else Inr (strftime_ibkr (replace_hms sd 16 0 0))) = Inr ts"
        unfolding P Some None by (auto split: sum.splits)
      from single_day_rule[OF v this] show ?thesis by (simp add: anchor)
    next
      case N2: None
      have anchor: "request_anchor now a b = (now, False)"
        by (simp add: request_anchor_def pa pb N2 None)
      from assms(2) have "format_ibkr_datetime eth now False = Inr ts"
        unfolding P N2 None by (auto split: sum.splits)
      from format_rule[OF assms(1) this] show ?thesis by (simp add: anchor)
    qed
  qed
qed

lemma pda_returns_iff:
  assumes "valid_datetime now"
  shows "(\<exists>r. process_date_arguments now a b d eth = Inr r)
           \<longleftrightarrow> dates_accepted a b \<and> \<not> no_following_day now a b eth"
proof (cases "parse_arg a")
  case (Inl x)
  then show ?thesis by (simp add: pda_parse_error_start dates_accepted_def)
next
  case pa: (Inr sdo)
  show ?thesis
  proof (cases "parse_arg b")
    case (Inl x)
    then show ?thesis using pa by (simp add: pda_parse_error_end dates_accepted_def)
  next
    case pb: (Inr edo)
    note P = pda_parsed[OF pa pb, of now d eth]
    show ?thesis
    proof (cases edo)
      case (Some ed)
      then have v: "valid_datetime ed" using parse_arg_valid pb by blast
      have anchor: "request_anchor now a b = (ed, time_not_min ed)"
        by (simp add: request_anchor_def pb Some)
      from format_ibkr_datetime_total[OF v, of eth "time_not_min ed"] show ?thesis
        unfolding P Some dates_accepted_def no_following_day_def anchor pa pb
        by (cases sdo) auto
    next
      case None
      show ?thesis
      proof (cases sdo)
        case (Some sd)
        then have v: "valid_datetime sd" using parse_arg_valid pa by blast
        have anchor: "request_anchor now a b = (sd, time_not_min sd)"
          by (simp add: request_anchor_def pa pb Some None)
        from format_ibkr_datetime_total[OF v, of True False] show ?thesis
          unfolding P Some None dates_accepted_def no_following_day_def anchor pa pb
          by auto
      next
        case N2: None
        have anchor: "request_anchor now a b = (now, False)"
          by (simp add: request_anchor_def pa pb N2 None)
        from format_ibkr_datetime_total[OF assms, of eth False] show ?thesis
          unfolding P N2 None dates_accepted_def no_following_day_def anchor pa pb
          by auto
      qed
    qed
  qed
qed

lemma pda_end_nonempty:
  assumes "process_date_arguments now a b d eth = Inr (ts, dur, info)"
  shows "ts \<noteq> []"
proof -
  from assms obtain sdo where pa: "parse_arg a = Inr sdo"
    by (cases "parse_arg a") (simp_all add: pda_parse_error_start)
  from assms pa obtain edo where pb: "parse_arg b = Inr edo"
    by (cases "parse_arg b") (simp_all add: pda_parse_error_end)
  from assms show ?thesis
    unfolding pda_parsed[OF pa pb]
    by (cases sdo; cases edo)
       (auto simp: strftime_ibkr_nonempty split: sum.splits if_splits dest: format_ibkr_datetime_nonempty)
qed

section \<open>The request window: duration and end timestamp\<close>

text \<open>
  Claim C1, as the code has it. For two date strings that parse with the start not after
  the end, the resolver returns the duration string of \<open>N\<close> days, \<open><N> D\<close> when
  \<open>N \<le> 365\<close> and \<open><N div 365> Y\<close> otherwise, where \<open>N\<close> is the number of calendar days
  from the start date to the end date, both included, less one when the time of day of the
  end is earlier than the time of day of the start (\<open>N\<close> is one more than the number of
  whole days elapsed). The window is one whose session close has a date (every window but
  the extended session ending on 9999-12-31 without a time). The example of the
  specification holds: 2024-01-15 to 2024-01-31, regular session, gives \<open>17 D\<close> and the end
  timestamp \<open>20240131 16:00:00\<close>.
\<close>

theorem date_range_duration_string:
  assumes "parse_date_string s = Inr (Some sd)" and "parse_date_string e = Inr (Some ed)"
    and "\<not> dt_gt sd ed"
    and "\<not> (eth \<and> \<not> time_not_min ed \<and> year ed = 9999 \<and> month ed = 12 \<and> day ed = 31)"
  shows "(\<exists>ts. process_date_arguments now (Some s) (Some e) d eth
                 = Inr (ts,
                        spec_duration_string (inclusive_calendar_days sd ed
                           - (if seconds_of_day ed < seconds_of_day sd then 1 else 0)),
                        Date_range s e (spec_duration_string (inclusive_calendar_days sd ed
                           - (if seconds_of_day ed < seconds_of_day sd then 1 else 0)))))
       \<and> process_date_arguments now (Some ''2024-01-15'') (Some ''2024-01-31'') ''1 Y'' False
           = Inr (''20240131 16:00:00'', ''17 D'', Date_range ''2024-01-15'' ''2024-01-31'' ''17 D'')"
proof
  have vs: "valid_datetime sd" "microsecond sd = 0" and ve: "valid_datetime ed" "microsecond ed = 0"
    using parse_date_string_valid[OF assms(1)] parse_date_string_valid[OF assms(2)] by simp_all
  have N: "timedelta_days ed sd + 1 = inclusive_calendar_days sd ed
             - (if seconds_of_day ed < seconds_of_day sd then 1 else 0)"
    using timedelta_days_calendar[OF vs(1) ve(1)] parsed_time_order[OF vs(2) ve(2)]
    by (simp add: inclusive_calendar_days_def)
  show "\<exists>ts. process_date_arguments now (Some s) (Some e) d eth
                 = Inr (ts,
                        spec_duration_string (inclusive_calendar_days sd ed
                           - (if seconds_of_day ed < seconds_of_day sd then 1 else 0)),
                        Date_range s e (spec_duration_string (inclusive_calendar_days sd ed
                           - (if seconds_of_day ed < seconds_of_day sd then 1 else 0))))"
    using format_ibkr_datetime_total[OF ve(1), of eth "time_not_min ed"] assms(3,4)
    unfolding pda_date_range[OF assms(1,2)] range_duration_str_spec N
    by auto
next
  show "process_date_arguments now (Some ''2024-01-15'') (Some ''2024-01-31'') ''1 Y'' False
           = Inr (''20240131 16:00:00'', ''17 D'', Date_range ''2024-01-15'' ''2024-01-31'' ''17 D'')"
    by (simp add: resolver_eval parse_eval fmt_eval ord_eval)
qed

text \<open>The theorem at a range of 912 days, whose end carries a time of day.\<close>

theorem date_range_duration_string_witness:
  "parse_date_string ''2022-01-01'' = Inr (Some (mk_datetime 2022 1 1 0 0 0))
   \<and> parse_date_string ''2024-06-30 12:00'' = Inr (Some (mk_datetime 2024 6 30 12 0 0))
   \<and> \<not> dt_gt (mk_datetime 2022 1 1 0 0 0) (mk_datetime 2024 6 30 12 0 0)
   \<and> inclusive_calendar_days (mk_datetime 2022 1 1 0 0 0) (mk_datetime 2024 6 30 12 0 0) = 912
   \<and> (\<exists>ts. process_date_arguments (mk_datetime 2025 3 4 10 20 30) (Some ''2022-01-01'')
               (Some ''2024-06-30 12:00'') ''1 Y'' False
             = Inr (ts, ''2 Y'', Date_range ''2022-01-01'' ''2024-06-30 12:00'' ''2 Y''))"
proof -
  have h1: "parse_date_string ''2022-01-01'' = Inr (Some (mk_datetime 2022 1 1 0 0 0))"
    by (simp add: parse_eval)
  have h2: "parse_date_string ''2024-06-30 12:00'' = Inr (Some (mk_datetime 2024 6 30 12 0 0))"
    by (simp add: parse_eval)
  have h3: "\<not> dt_gt (mk_datetime 2022 1 1 0 0 0) (mk_datetime 2024 6 30 12 0 0)"
    by (simp add: dt_gt_def dt_key_def)
  have h4: "\<not> (False \<and> \<not> time_not_min (mk_datetime 2024 6 30 12 0 0)
              \<and> year (mk_datetime 2024 6 30 12 0 0) = 9999
              \<and> month (mk_datetime 2024 6 30 12 0 0) = 12 \<and> day (mk_datetime 2024 6 30 12 0 0) = 31)"
    by simp
  have n: "inclusive_calendar_days (mk_datetime 2022 1 1 0 0 0) (mk_datetime 2024 6 30 12 0 0) = 912"
    by (simp add: ord_eval)
  have sp: "spec_duration_string 912 = ''2 Y''"
    by (simp add: spec_duration_string_def fmt_eval)
  from date_range_duration_string[OF h1 h2 h3 h4, of "mk_datetime 2025 3 4 10 20 30" "''1 Y''"]
  show ?thesis using h1 h2 h3 n sp by (simp add: seconds_of_day_def)
qed

text \<open>
  Claim C1 as stated fails when the end's time of day is earlier than the start's: from
  2024-01-15 23:00 to 2024-01-16 01:00 two calendar days are spanned, the duration string
  of two days is \<open>2 D\<close>, and the resolver returns \<open>1 D\<close>.
\<close>

theorem date_range_calendar_days_counterexample:
  "parse_date_string ''2024-01-15 23:00'' = Inr (Some (mk_datetime 2024 1 15 23 0 0))
   \<and> parse_date_string ''2024-01-16 01:00'' = Inr (Some (mk_datetime 2024 1 16 1 0 0))
   \<and> \<not> dt_gt (mk_datetime 2024 1 15 23 0 0) (mk_datetime 2024 1 16 1 0 0)
   \<and> inclusive_calendar_days (mk_datetime 2024 1 15 23 0 0) (mk_datetime 2024 1 16 1 0 0) = 2
   \<and> spec_duration_string 2 = ''2 D''
   \<and> process_date_arguments (mk_datetime 2025 3 4 10 20 30) (Some ''2024-01-15 23:00'')
        (Some ''2024-01-16 01:00'') ''1 Y'' False
      = Inr (''20240116 01:00:00'', ''1 D'',
             Date_range ''2024-01-15 23:00'' ''2024-01-16 01:00'' ''1 D'')
   \<and> ''1 D'' \<noteq> ''2 D''"
  by (simp add: resolver_eval parse_eval fmt_eval ord_eval)

text \<open>
  Claim C2, as the code has it. On every window the resolver accepts and whose session
  close has a date, the resolver returns, and its end timestamp follows the anchor (the end
  date when given, else the start date, else the current moment taken as a date): an anchor
  with a time of day other than midnight is written verbatim; an anchor without a time of
  day, or with the time 00:00:00, gives 16:00:00 on the same calendar day in the regular
  session and 02:00:00 on the following calendar day in the extended session.
\<close>

theorem end_timestamp_rule:
  assumes "valid_datetime now" and "dates_accepted a b" and "\<not> no_following_day now a b eth"
  shows "\<exists>ts dur info. process_date_arguments now a b d eth = Inr (ts, dur, info)
           \<and> (if snd (request_anchor now a b)
              then ts = fmt_date (fst (request_anchor now a b)) @ '' ''
                          @ fmt_time (fst (request_anchor now a b))
              else session_close_timestamp eth (fst (request_anchor now a b)) ts)"
proof -
  from pda_returns_iff[OF assms(1), of a b d eth] assms(2,3)
  obtain ts dur info where r: "process_date_arguments now a b d eth = Inr (ts, dur, info)"
    by (metis prod_cases3)
  from anchor_rule_aux[OF assms(1) r] r show ?thesis by blast
qed

text \<open>The theorem at a single day of the extended session that ends a leap February.\<close>

theorem end_timestamp_rule_witness:
  "valid_datetime (mk_datetime 2025 3 4 10 20 30)
   \<and> dates_accepted (Some ''2024-02-28'') None
   \<and> \<not> no_following_day (mk_datetime 2025 3 4 10 20 30) (Some ''2024-02-28'') None True
   \<and> request_anchor (mk_datetime 2025 3 4 10 20 30) (Some ''2024-02-28'') None
       = (mk_datetime 2024 2 28 0 0 0, False)
   \<and> process_date_arguments (mk_datetime 2025 3 4 10 20 30) (Some ''2024-02-28'') None ''1 Y'' True
       = Inr (''20240229 02:00:00'', ''1 D'', Single_day ''2024-02-28'' ''1 D'')
   \<and> session_close_timestamp True (mk_datetime 2024 2 28 0 0 0) ''20240229 02:00:00''"
proof -
  have h1: "valid_datetime (mk_datetime 2025 3 4 10 20 30)"
    by (simp add: valid_datetime_def days_in_month_def)
  have p: "parse_arg (Some ''2024-02-28'') = Inr (Some (mk_datetime 2024 2 28 0 0 0))"
    by (simp add: parse_arg_def parse_eval)
  have h2: "dates_accepted (Some ''2024-02-28'') None"
    by (simp add: dates_accepted_def p)
  have an: "request_anchor (mk_datetime 2025 3 4 10 20 30) (Some ''2024-02-28'') None
       = (mk_datetime 2024 2 28 0 0 0, False)"
    by (simp add: request_anchor_def p time_not_min_def)
  have h3: "\<not> no_following_day (mk_datetime 2025 3 4 10 20 30) (Some ''2024-02-28'') None True"
    by (simp add: no_following_day_def an)
  have r: "process_date_arguments (mk_datetime 2025 3 4 10 20 30) (Some ''2024-02-28'') None ''1 Y'' True
       = Inr (''20240229 02:00:00'', ''1 D'', Single_day ''2024-02-28'' ''1 D'')"
    by (simp add: resolver_eval parse_eval fmt_eval)
  from end_timestamp_rule[OF h1 h2 h3, of "''1 Y''"]
  show ?thesis using h1 h2 h3 an r by simp
qed

text \<open>
  Claim C2 as stated fails for an explicit time of midnight: the end string
  \<open>2024-01-31 00:00:00\<close> parses with the format that has a time, and the regular session
  gets 16:00:00 instead of the time given.
\<close>

theorem end_timestamp_explicit_midnight_counterexample:
  "strptime ''2024-01-31 00:00:00'' Fmt_ymd_hms = Some (mk_datetime 2024 1 31 0 0 0)
   \<and> strftime_ibkr (mk_datetime 2024 1 31 0 0 0) = ''20240131 00:00:00''
   \<and> process_date_arguments (mk_datetime 2025 3 4 10 20 30) None (Some ''2024-01-31 00:00:00'')
        ''1 Y'' False
      = Inr (''20240131 16:00:00'', ''1 Y'', Duration_with_end ''2024-01-31 00:00:00'' ''1 Y'')
   \<and> ''20240131 16:00:00'' \<noteq> ''20240131 00:00:00''"
  by (simp add: resolver_eval parse_eval fmt_eval)

text \<open>
  Claim C4, as the code has it. On every window the resolver accepts (the dates given
  parse and the start is not after the end) and whose session close has a date, the
  resolver returns an end timestamp that is not empty; when it does not accept the window
  it raises ValueError and returns nothing. With neither date given it returns the default
  duration and the session close of the current date.
\<close>

theorem end_timestamp_nonempty:
  assumes "valid_datetime now"
  shows "(dates_accepted a b \<and> \<not> no_following_day now a b eth \<longrightarrow>
            (\<exists>ts dur info. process_date_arguments now a b d eth = Inr (ts, dur, info) \<and> ts \<noteq> []))
       \<and> (\<not> dates_accepted a b \<longrightarrow> (\<exists>m. process_date_arguments now a b d eth = Inl (ValueError m)))
       \<and> (\<not> (eth \<and> year now = 9999 \<and> month now = 12 \<and> day now = 31) \<longrightarrow>
            (\<exists>ts. process_date_arguments now None None d eth = Inr (ts, d, Duration_only d)
                  \<and> ts \<noteq> [] \<and> session_close_timestamp eth now ts))"
proof (intro conjI impI)
  assume "dates_accepted a b \<and> \<not> no_following_day now a b eth"
  with pda_returns_iff[OF assms, of a b d eth]
  obtain ts dur info where r: "process_date_arguments now a b d eth = Inr (ts, dur, info)"
    by (metis prod_cases3)
  with pda_end_nonempty[OF r]
  show "\<exists>ts dur info. process_date_arguments now a b d eth = Inr (ts, dur, info) \<and> ts \<noteq> []"
    by blast
next
  assume n: "\<not> dates_accepted a b"
  show "\<exists>m. process_date_arguments now a b d eth = Inl (ValueError m)"
  proof (cases "parse_arg a")
    case (Inl x)
    then obtain m where "x = ValueError m"
      by (auto simp: parse_arg_def parse_date_string_def split: option.splits if_splits)
    with Inl show ?thesis by (simp add: pda_parse_error_start)
  next
    case pa: (Inr sdo)
    show ?thesis
    proof (cases "parse_arg b")
      case (Inl x)
      then obtain m where "x = ValueError m"
        by (auto simp: parse_arg_def parse_date_string_def split: option.splits if_splits)
      with Inl pa show ?thesis by (simp add: pda_parse_error_end)
    next
      case pb: (Inr edo)
      from n show ?thesis
        unfolding pda_parsed[OF pa pb] dates_accepted_def pa pb
        by (cases sdo; cases edo) auto
    qed
  qed
next
  assume o: "\<not> (eth \<and> year now = 9999 \<and> month now = 12 \<and> day now = 31)"
  from format_ibkr_datetime_total[OF assms, of eth False] o
  obtain ts where f: "format_ibkr_datetime eth now False = Inr ts" by auto
  from format_rule[OF assms f] format_ibkr_datetime_nonempty[OF f] f
  show "\<exists>ts. process_date_arguments now None None d eth = Inr (ts, d, Duration_only d)
                  \<and> ts \<noteq> [] \<and> session_close_timestamp eth now ts"
    by (simp add: pda_duration_only)
qed

text \<open>
  The theorem at the example of the specification: neither date, default duration
  \<open>6 M\<close>, extended session.
\<close>

theorem end_timestamp_nonempty_witness:
  "valid_datetime (mk_datetime 2025 3 4 10 20 30)
   \<and> dates_accepted None None
   \<and> \<not> no_following_day (mk_datetime 2025 3 4 10 20 30) None None True
   \<and> \<not> dates_accepted (Some ''2024-13-01'') None
   \<and> (\<exists>m. process_date_arguments (mk_datetime 2025 3 4 10 20 30) (Some ''2024-13-01'') None
             ''6 M'' True = Inl (ValueError m))
   \<and> process_date_arguments (mk_datetime 2025 3 4 10 20 30) None None ''6 M'' True
       = Inr (''20250305 02:00:00'', ''6 M'', Duration_only ''6 M'')
   \<and> session_close_timestamp True (mk_datetime 2025 3 4 10 20 30) ''20250305 02:00:00''"
proof -
  have h1: "valid_datetime (mk_datetime 2025 3 4 10 20 30)"
    by (simp add: valid_datetime_def days_in_month_def)
  have h2: "dates_accepted None None"
    by (simp add: dates_accepted_def)
  have h3: "\<not> no_following_day (mk_datetime 2025 3 4 10 20 30) None None True"
    by (simp add: no_following_day_def request_anchor_def)
  have h4: "\<not> dates_accepted (Some ''2024-13-01'') None"
    by (simp add: dates_accepted_def parse_arg_def parse_eval)
  have r: "process_date_arguments (mk_datetime 2025 3 4 10 20 30) None None ''6 M'' True
       = Inr (''20250305 02:00:00'', ''6 M'', Duration_only ''6 M'')"
    by (simp add: resolver_eval fmt_eval days_in_month_def)
  from end_timestamp_nonempty[OF h1, of "Some ''2024-13-01''" None True "''6 M''"]
    end_timestamp_nonempty[OF h1, of None None True "''6 M''"]
  show ?thesis using h1 h2 h3 h4 r by simp
qed

text \<open>
  Claim C4 as stated fails on a window the resolver rejects: with the start after the
  end it raises ValueError and returns no end timestamp.
\<close>

theorem end_timestamp_rejected_window_counterexample:
  "process_date_arguments (mk_datetime 2025 3 4 10 20 30) (Some ''2024-02-01'')
     (Some ''2024-01-01'') ''1 Y'' False
   = Inl (ValueError ''Start date cannot be after end date'')"
  by (simp add: resolver_eval parse_eval)

section \<open>An explicit midnight\<close>

lemma strptime_empty: "strptime [] f = None"
  by (cases f) (simp_all add: strptime_def first_match_def match_ymd_hms_def match_ymd_hm_def match_ymd_def)

lemma parse_date_string_by_format:
  assumes "strptime s Fmt_ymd_hms = Some dt
           \<or> (strptime s Fmt_ymd_hms = None \<and> strptime s Fmt_ymd_hm = Some dt)
           \<or> (strptime s Fmt_ymd_hms = None \<and> strptime s Fmt_ymd_hm = None \<and> strptime s Fmt_ymd = Some dt)"
  shows "parse_date_string s = Inr (Some dt)"
proof -
  have "s \<noteq> []" using assms strptime_empty by auto
  with assms show ?thesis by (auto simp: parse_date_string_def)
qed

lemma datetime_eqI:
  fixes a b :: datetime
  assumes "year a = year b" "month a = month b" "day a = day b" "hour a = hour b"
    "minute a = minute b" "second a = second b" "microsecond a = microsecond b"
  shows "a = b"
  using assms by simp

lemma strptime_ymd_midnight:
  "strptime s Fmt_ymd = Some dt \<Longrightarrow> hour dt = 0 \<and> minute dt = 0 \<and> second dt = 0 \<and> microsecond dt = 0"
  by (auto simp: strptime_def first_match_def split: option.splits list.splits if_splits)

lemma pda_same_parse_end:
  assumes "parse_arg (Some s) = parse_arg (Some s0)"
  shows "end_and_duration (process_date_arguments now x (Some s) d eth)
           = end_and_duration (process_date_arguments now x (Some s0) d eth)"
  by (simp add: process_date_arguments_def end_and_duration_def assms Let_def
      split: sum.splits option.splits)

lemma pda_same_parse_start:
  assumes "parse_arg (Some s) = parse_arg (Some s0)"
  shows "end_and_duration (process_date_arguments now (Some s) y d eth)
           = end_and_duration (process_date_arguments now (Some s0) y d eth)"
  by (simp add: process_date_arguments_def end_and_duration_def assms Let_def
      split: sum.splits option.splits)

text \<open>
  Claim C10. A date string that is read with one of the two formats that have a time, and
  whose time is midnight, is parsed to the same datetime as the same date written without
  a time. The resolver therefore gives both the same end timestamp and duration (or the
  same exception) wherever the string stands, as the end or as the start, and that end
  timestamp is the session close of the date: 16:00:00 on the same day for the regular
  session, 02:00:00 on the following day for the extended session, never 00:00:00.
\<close>

theorem explicit_midnight_as_date_only:
  assumes "strptime s Fmt_ymd_hms = Some dt
           \<or> (strptime s Fmt_ymd_hms = None \<and> strptime s Fmt_ymd_hm = Some dt)"
    and "hour dt = 0" and "minute dt = 0" and "second dt = 0"
    and "strptime s0 Fmt_ymd_hms = None" and "strptime s0 Fmt_ymd_hm = None"
    and "strptime s0 Fmt_ymd = Some dt0"
    and "year dt0 = year dt" and "month dt0 = month dt" and "day dt0 = day dt"
  shows "parse_date_string s = parse_date_string s0
       \<and> (\<forall>x. end_and_duration (process_date_arguments now x (Some s) d eth)
                = end_and_duration (process_date_arguments now x (Some s0) d eth))
       \<and> (\<forall>y. end_and_duration (process_date_arguments now (Some s) y d eth)
                = end_and_duration (process_date_arguments now (Some s0) y d eth))
       \<and> process_date_arguments now None (Some s) d False
           = Inr (fmt_date dt @ '' 16:00:00'', d, Duration_with_end s d)
       \<and> process_date_arguments now (Some s) None d False
           = Inr (fmt_date dt @ '' 16:00:00'', ''1 D'', Single_day s ''1 D'')
       \<and> (\<forall>x ts dur info. process_date_arguments now x (Some s) d eth = Inr (ts, dur, info)
             \<longrightarrow> session_close_timestamp eth dt ts)
       \<and> (\<forall>ts dur info. process_date_arguments now (Some s) None d eth = Inr (ts, dur, info)
             \<longrightarrow> session_close_timestamp eth dt ts)"
proof -
  have ps: "parse_date_string s = Inr (Some dt)"
    using assms(1) by (intro parse_date_string_by_format) auto
  have ps0: "parse_date_string s0 = Inr (Some dt0)"
    using assms(5,6,7) by (intro parse_date_string_by_format) auto
  have v: "valid_datetime dt" and mu: "microsecond dt = 0"
    using parse_date_string_valid[OF ps] by simp_all
  have eq: "dt0 = dt"
    using strptime_ymd_midnight[OF assms(7)] assms(2,3,4,8,9,10) mu by (intro datetime_eqI) simp_all
  have 1: "parse_date_string s = parse_date_string s0" by (simp add: ps ps0 eq)
  have pa: "parse_arg (Some s) = Inr (Some dt)" by (rule parse_arg_Some[OF ps])
  have pa_eq: "parse_arg (Some s) = parse_arg (Some s0)"
    using parse_arg_Some[OF ps] parse_arg_Some[OF ps0] eq by simp
  have nt: "\<not> time_not_min dt" using assms(2,3,4) mu by (simp add: time_not_min_def)
  have 4: "process_date_arguments now None (Some s) d False
           = Inr (fmt_date dt @ '' 16:00:00'', d, Duration_with_end s d)"
    by (simp add: pda_duration_with_end[OF ps] nt format_ibkr_datetime_def strftime_regular_close)
  have 5: "process_date_arguments now (Some s) None d False
           = Inr (fmt_date dt @ '' 16:00:00'', ''1 D'', Single_day s ''1 D'')"
    by (simp add: pda_single_day[OF ps] nt strftime_regular_close)
  have 6: "session_close_timestamp eth dt ts"
    if r: "process_date_arguments now x (Some s) d eth = Inr (ts, dur, info)" for x ts dur info
  proof -
    from r obtain sdo where px: "parse_arg x = Inr sdo"
      by (cases "parse_arg x") (simp_all add: pda_parse_error_start)
    from r have "format_ibkr_datetime eth dt False = Inr ts"
      unfolding pda_parsed[OF px pa] using nt by (cases sdo) (auto split: sum.splits if_splits)
    from format_rule[OF v this] show ?thesis by simp
  qed
  have 7: "session_close_timestamp eth dt ts"
    if r: "process_date_arguments now (Some s) None d eth = Inr (ts, dur, info)" for ts dur info
  proof -
    from r have "(if time_not_min dt then Inr (strftime_ibkr dt)
                  else if eth then format_ibkr_datetime True dt False
                  else Inr (strftime_ibkr (replace_hms dt 16 0 0))) = Inr ts"
      unfolding pda_single_day[OF ps] by (auto split: sum.splits)
    from single_day_rule[OF v this] nt show ?thesis by simp
  qed
  from 1 pda_same_parse_end[OF pa_eq] pda_same_parse_start[OF pa_eq] 4 5 6 7
  show ?thesis by blast
qed

text \<open>The theorem at \<open>2024-01-31 00:00\<close> and \<open>2024-01-31\<close>, with the extended session.\<close>

theorem explicit_midnight_as_date_only_witness:
  "(strptime ''2024-01-31 00:00'' Fmt_ymd_hms = None
      \<and> strptime ''2024-01-31 00:00'' Fmt_ymd_hm = Some (mk_datetime 2024 1 31 0 0 0))
   \<and> strptime ''2024-01-31'' Fmt_ymd_hms = None \<and> strptime ''2024-01-31'' Fmt_ymd_hm = None
   \<and> strptime ''2024-01-31'' Fmt_ymd = Some (mk_datetime 2024 1 31 0 0 0)
   \<and> parse_date_string ''2024-01-31 00:00'' = parse_date_string ''2024-01-31''
   \<and> process_date_arguments (mk_datetime 2025 3 4 10 20 30) None (Some ''2024-01-31 00:00'') ''1 Y'' False
       = Inr (''20240131 16:00:00'', ''1 Y'', Duration_with_end ''2024-01-31 00:00'' ''1 Y'')
   \<and> process_date_arguments (mk_datetime 2025 3 4 10 20 30) None (Some ''2024-01-31 00:00'') ''1 Y'' True
       = Inr (''20240201 02:00:00'', ''1 Y'', Duration_with_end ''2024-01-31 00:00'' ''1 Y'')
   \<and> session_close_timestamp True (mk_datetime 2024 1 31 0 0 0) ''20240201 02:00:00''
   \<and> end_and_duration (process_date_arguments (mk_datetime 2025 3 4 10 20 30) None
         (Some ''2024-01-31'') ''1 Y'' True) = Inr (''20240201 02:00:00'', ''1 Y'')"
proof -
  have h1: "strptime ''2024-01-31 00:00'' Fmt_ymd_hms = Some (mk_datetime 2024 1 31 0 0 0)
           \<or> (strptime ''2024-01-31 00:00'' Fmt_ymd_hms = None
               \<and> strptime ''2024-01-31 00:00'' Fmt_ymd_hm = Some (mk_datetime 2024 1 31 0 0 0))"
    by (simp add: parse_eval)
  have h1': "strptime ''2024-01-31 00:00'' Fmt_ymd_hms = None
      \<and> strptime ''2024-01-31 00:00'' Fmt_ymd_hm = Some (mk_datetime 2024 1 31 0 0 0)"
    by (simp add: parse_eval)
  have h5: "strptime ''2024-01-31'' Fmt_ymd_hms = None" by (simp add: parse_eval)
  have h6: "strptime ''2024-01-31'' Fmt_ymd_hm = None" by (simp add: parse_eval)
  have h7: "strptime ''2024-01-31'' Fmt_ymd = Some (mk_datetime 2024 1 31 0 0 0)"
    by (simp add: parse_eval)
  have r: "process_date_arguments (mk_datetime 2025 3 4 10 20 30) None (Some ''2024-01-31 00:00'') ''1 Y'' True
       = Inr (''20240201 02:00:00'', ''1 Y'', Duration_with_end ''2024-01-31 00:00'' ''1 Y'')"
    by (simp add: resolver_eval parse_eval fmt_eval)
  have f: "fmt_date (mk_datetime 2024 1 31 0 0 0) = ''20240131''" by (simp add: fmt_eval)
  have h2: "hour (mk_datetime 2024 1 31 0 0 0) = 0" and h3: "minute (mk_datetime 2024 1 31 0 0 0) = 0"
    and h4: "second (mk_datetime 2024 1 31 0 0 0) = 0" by simp_all
  have h8: "year (mk_datetime 2024 1 31 0 0 0) = year (mk_datetime 2024 1 31 0 0 0)"
    and h9: "month (mk_datetime 2024 1 31 0 0 0) = month (mk_datetime 2024 1 31 0 0 0)"
    and h10: "day (mk_datetime 2024 1 31 0 0 0) = day (mk_datetime 2024 1 31 0 0 0)" by simp_all
  note T = explicit_midnight_as_date_only[OF h1 h2 h3 h4 h5 h6 h7 h8 h9 h10,
      of "mk_datetime 2025 3 4 10 20 30" "''1 Y''" True]
  from T have c1: "parse_date_string ''2024-01-31 00:00'' = parse_date_string ''2024-01-31''"
    by blast
  from T have c2: "end_and_duration (process_date_arguments (mk_datetime 2025 3 4 10 20 30) None
         (Some ''2024-01-31 00:00'') ''1 Y'' True)
       = end_and_duration (process_date_arguments (mk_datetime 2025 3 4 10 20 30) None
         (Some ''2024-01-31'') ''1 Y'' True)"
    by blast
  from T have c4: "process_date_arguments (mk_datetime 2025 3 4 10 20 30) None
         (Some ''2024-01-31 00:00'') ''1 Y'' False
       = Inr (fmt_date (mk_datetime 2024 1 31 0 0 0) @ '' 16:00:00'', ''1 Y'',
              Duration_with_end ''2024-01-31 00:00'' ''1 Y'')"
    by blast
  from T r have c6: "session_close_timestamp True (mk_datetime 2024 1 31 0 0 0) ''20240201 02:00:00''"
    by blast
  have c2': "end_and_duration (process_date_arguments (mk_datetime 2025 3 4 10 20 30) None
         (Some ''2024-01-31'') ''1 Y'' True) = Inr (''20240201 02:00:00'', ''1 Y'')"
    using c2 r by (simp add: end_and_duration_def)
  have c4': "process_date_arguments (mk_datetime 2025 3 4 10 20 30) None
         (Some ''2024-01-31 00:00'') ''1 Y'' False
       = Inr (''20240131 16:00:00'', ''1 Y'', Duration_with_end ''2024-01-31 00:00'' ''1 Y'')"
    using c4 f by simp
  show ?thesis
    using h1' h5 h6 h7 c1 c4' r c6 c2' by blast
qed
section \<open>File names\<close>

lemma digit_val_digit_char: "n < 10 \<Longrightarrow> digit_val (digit_char n) = n"
proof -
  assume "n < 10"
  then have "n \<in> {0,1,2,3,4,5,6,7,8,9}" by auto
  then show ?thesis by (elim insertE emptyE; simp add: digit_val_def digit_char_def)
qed

lemma digits_value_snoc: "digits_value (s @ [c]) = 10 * digits_value s + digit_val c"
  by (simp add: digits_value_def)

lemma digits_value_str_nat: "digits_value (str_nat n) = n"
proof (induction n rule: str_nat.induct)
  case (1 n)
  show ?case
  proof (cases "n < 10")
    case True
    then show ?thesis by (simp add: str_nat.simps[of n] digits_value_def digit_val_digit_char)
  next
    case False
    with 1 show ?thesis
      by (simp add: str_nat.simps[of n] digits_value_snoc digit_val_digit_char)
  qed
qed

lemma digits_value_zeros: "digits_value (replicate k CHR ''0'' @ s) = digits_value s"
  by (induction k) (simp_all add: digits_value_def digit_val_def)

lemma digits_value_zpad: "digits_value (zpad w n) = n"
  by (simp add: zpad_def digits_value_zeros digits_value_str_nat)

lemma zpad_inj: "zpad w a = zpad w b \<Longrightarrow> a = b"
  by (metis digits_value_zpad)

lemma numbered_filename_inj:
  "numbered_filename n t e a = numbered_filename n t e b \<Longrightarrow> a = b"
  by (auto simp: numbered_filename_def dest: zpad_inj)

text \<open>
  Claim C5. The selector \<open>market\<close> gives the zone US/Eastern for every symbol, so the zone
  of one symbol is the zone of any other.
\<close>

theorem market_timezone_ignores_symbol:
  "get_target_timezone ''market'' s1 = get_target_timezone ''market'' s2
   \<and> get_target_timezone ''market'' s1 = Tz ''US/Eastern''"
  by (simp add: get_target_timezone_def Let_def)

lemma unique_loop_free: "unique_loop E n t e u c |\<notin>| E"
proof (induction E n t e u c rule: unique_loop.induct)
  case (1 E n t e u c)
  then show ?case by (cases "u |\<in>| E") (simp_all add: unique_loop.simps[of E n t e u c])
qed

lemma unique_loop_numbered:
  "\<exists>k\<ge>c. unique_loop E n t e (numbered_filename n t e c) (c + 1) = numbered_filename n t e k
         \<and> (\<forall>j. c \<le> j \<and> j < k \<longrightarrow> numbered_filename n t e j |\<in>| E)"
proof (induction E n t e "numbered_filename n t e c" "c + 1" arbitrary: c rule: unique_loop.induct)
  case (1 E n t e c)
  show ?case
  proof (cases "numbered_filename n t e c |\<in>| E")
    case False
    then have "unique_loop E n t e (numbered_filename n t e c) (c + 1) = numbered_filename n t e c"
      by (simp add: unique_loop.simps[of E n t e "numbered_filename n t e c"])
    then show ?thesis by auto
  next
    case True
    from 1(1)[OF True refl refl] obtain k where k: "c + 1 \<le> k"
      "unique_loop E n t e (numbered_filename n t e (c + 1)) (c + 1 + 1) = numbered_filename n t e k"
      "\<forall>j. c + 1 \<le> j \<and> j < k \<longrightarrow> numbered_filename n t e j |\<in>| E" by blast
    have "unique_loop E n t e (numbered_filename n t e c) (c + 1)
            = unique_loop E n t e (numbered_filename n t e (c + 1)) (c + 1 + 1)"
      using True by (simp add: unique_loop.simps[of E n t e "numbered_filename n t e c"])
    moreover have "\<forall>j. c \<le> j \<and> j < k \<longrightarrow> numbered_filename n t e j |\<in>| E"
    proof (intro allI impI)
      fix j assume "c \<le> j \<and> j < k"
      then consider "j = c" | "c + 1 \<le> j \<and> j < k" by linarith
      then show "numbered_filename n t e j |\<in>| E" using True k(3) by cases auto
    qed
    ultimately show ?thesis using k(1,2) by (intro exI[of _ k]) simp
  qed
qed


lemma generate_filename_parts:
  "generate_filename s t d tf m e =
     upper s @ ''_'' @ t @ month_part t m @ ''_'' @ duration_token d @ ''_'' @ timeframe_token tf
       @ (if e then ''_ETH'' else []) @ ''_OHLCV.csv''"
  by (cases m) (simp_all add: generate_filename_def Let_def month_part_def duration_token_def
      timeframe_token_def)

text \<open>
  Claim C6, as the code has it. The file name is a function of its six arguments, so equal
  arguments give equal names. The name changes with the extended-hours flag always; with
  the symbol exactly when the upper-case symbols differ; with the duration exactly when the
  durations differ after their blanks are removed; with the time frame exactly when the
  abbreviated time frames differ; with the contract month exactly when the month parts
  differ (the month is used for the security type \<open>FUT\<close> only, and None is the empty
  month); with the security type whenever no contract month is written for either type.
\<close>

theorem generate_filename_varies:
  "generate_filename s t d tf m True \<noteq> generate_filename s t d tf m False
   \<and> (generate_filename s1 t d tf m e = generate_filename s2 t d tf m e \<longleftrightarrow> upper s1 = upper s2)
   \<and> (generate_filename s t d1 tf m e = generate_filename s t d2 tf m e
        \<longleftrightarrow> duration_token d1 = duration_token d2)
   \<and> (generate_filename s t d tf1 m e = generate_filename s t d tf2 m e
        \<longleftrightarrow> timeframe_token tf1 = timeframe_token tf2)
   \<and> (generate_filename s t d tf m1 e = generate_filename s t d tf m2 e
        \<longleftrightarrow> month_part t m1 = month_part t m2)
   \<and> (month_part t1 m = [] \<and> month_part t2 m = [] \<longrightarrow>
        (generate_filename s t1 d tf m e = generate_filename s t2 d tf m e \<longleftrightarrow> t1 = t2))"
  by (simp add: generate_filename_parts)

text \<open>
  The theorem at stock and future names: the type \<open>STK\<close> writes no month, so a change of
  the month changes nothing there, and the types \<open>STK\<close> and \<open>CASH\<close> give different names.
\<close>

theorem generate_filename_varies_witness:
  "month_part ''STK'' (Some ''202409'') = [] \<and> month_part ''CASH'' (Some ''202409'') = []
   \<and> generate_filename ''SPY'' ''STK'' ''1 Y'' ''1 day'' (Some ''202409'') False
       \<noteq> generate_filename ''SPY'' ''CASH'' ''1 Y'' ''1 day'' (Some ''202409'') False
   \<and> generate_filename ''SPY'' ''STK'' ''1 Y'' ''1 day'' (Some ''202409'') False
       = ''SPY_STK_1Y_1d_OHLCV.csv''"
proof -
  have h: "month_part ''STK'' (Some ''202409'') = [] \<and> month_part ''CASH'' (Some ''202409'') = []"
    by (simp add: month_part_def)
  have v: "generate_filename ''SPY'' ''STK'' ''1 Y'' ''1 day'' (Some ''202409'') False
       = ''SPY_STK_1Y_1d_OHLCV.csv''"
    by (simp add: generate_filename_def upper_def upper_char_def str_replace.simps Let_def)
  note c6 = generate_filename_varies[THEN conjunct2, THEN conjunct2, THEN conjunct2,
      THEN conjunct2, THEN conjunct2]
  from c6[THEN mp, OF h]
  have "generate_filename ''SPY'' ''STK'' ''1 Y'' ''1 day'' (Some ''202409'') False
          = generate_filename ''SPY'' ''CASH'' ''1 Y'' ''1 day'' (Some ''202409'') False
        \<longleftrightarrow> ''STK'' = ''CASH''" .
  with h v
  show ?thesis by simp
qed

text \<open>
  Claim C6 as stated fails: the symbols \<open>spy\<close> and \<open>SPY\<close> differ and give the same file
  name, and so do the durations \<open>1 D\<close> and \<open>1D\<close>.
\<close>

theorem generate_filename_same_name_counterexample:
  "''spy'' \<noteq> ''SPY''
   \<and> generate_filename ''spy'' ''STK'' ''1 D'' ''1 min'' None False
       = generate_filename ''SPY'' ''STK'' ''1 D'' ''1 min'' None False
   \<and> ''1 D'' \<noteq> ''1D''
   \<and> generate_filename ''SPY'' ''STK'' ''1 D'' ''1 min'' None False
       = generate_filename ''SPY'' ''STK'' ''1D'' ''1 min'' None False"
  by (simp add: generate_filename_def upper_def upper_char_def str_replace.simps Let_def)

text \<open>
  Claim C7. \<^verbatim>\<open>generate_unique_filename\<close> is total, whatever finite set of paths exists, and
  its result is never one of the existing paths. When the original path and the candidate
  with the timestamp both exist, the result is the numbered candidate with the least number
  from 1 on that does not exist; the number is written with at least two digits, \<open>_01\<close>,
  \<open>_02\<close> and so on. It is the path \<^verbatim>\<open>handle_file_conflict\<close> returns when the user answers
  Rename.
\<close>

theorem generate_unique_filename_free:
  "generate_unique_filename existing now base |\<notin>| existing
   \<and> (base |\<in>| existing
        \<and> fst (splitext base) @ ''_'' @ strftime_suffix now @ snd (splitext base) |\<in>| existing
      \<longrightarrow> (\<exists>k\<ge>1. generate_unique_filename existing now base
                    = fst (splitext base) @ ''_'' @ strftime_suffix now @ ''_'' @ zpad 2 k
                        @ snd (splitext base)
                 \<and> (\<forall>j. 1 \<le> j \<and> j < k \<longrightarrow>
                       fst (splitext base) @ ''_'' @ strftime_suffix now @ ''_'' @ zpad 2 j
                         @ snd (splitext base) |\<in>| existing)))
   \<and> (upper (strip line) \<in> set [''R'', ''RENAME''] \<longrightarrow>
        snd (prompt_loop w base (line # rest))
          = Inr (generate_unique_filename (files w) (clock w) base, True))
   \<and> zpad 2 1 = ''01'' \<and> zpad 2 2 = ''02'' \<and> zpad 2 10 = ''10'' \<and> zpad 2 100 = ''100''"
proof (intro conjI impI)
  assume "upper (strip line) \<in> set [''R'', ''RENAME'']"
  then show "snd (prompt_loop w base (line # rest))
          = Inr (generate_unique_filename (files w) (clock w) base, True)"
    by (auto simp: Let_def)
next
  show "generate_unique_filename existing now base |\<notin>| existing"
    by (simp add: generate_unique_filename_def Let_def unique_loop_free split: prod.splits)
next
  assume a: "base |\<in>| existing
        \<and> fst (splitext base) @ ''_'' @ strftime_suffix now @ snd (splitext base) |\<in>| existing"
  obtain n x where sp: "splitext base = (n, x)" by (cases "splitext base")
  let ?t = "strftime_suffix now"
  have "generate_unique_filename existing now base
          = unique_loop existing n ?t x (n @ ''_'' @ ?t @ x) 1"
    using a by (simp add: generate_unique_filename_def sp Let_def)
  also have "\<dots> = unique_loop existing n ?t x (numbered_filename n ?t x 1) (1 + 1)"
    by (subst unique_loop.simps) (use a in \<open>simp add: sp\<close>)
  finally have g: "generate_unique_filename existing now base
          = unique_loop existing n ?t x (numbered_filename n ?t x 1) (1 + 1)" .
  from unique_loop_numbered[of 1 existing n ?t x] g
  show "\<exists>k\<ge>1. generate_unique_filename existing now base
                    = fst (splitext base) @ ''_'' @ strftime_suffix now @ ''_'' @ zpad 2 k
                        @ snd (splitext base)
                 \<and> (\<forall>j. 1 \<le> j \<and> j < k \<longrightarrow>
                       fst (splitext base) @ ''_'' @ strftime_suffix now @ ''_'' @ zpad 2 j
                         @ snd (splitext base) |\<in>| existing)"
    by (simp add: sp numbered_filename_def)
qed (simp_all add: zpad_def str_nat.simps digit_char_def)

text \<open>The theorem where the original, the timestamp candidate and candidate 01 exist.\<close>

theorem generate_unique_filename_free_witness:
  "''a.csv'' |\<in>| {|''a.csv'', ''a_20250304_102030.csv'', ''a_20250304_102030_01.csv''|}
   \<and> fst (splitext ''a.csv'') @ ''_'' @ strftime_suffix (mk_datetime 2025 3 4 10 20 30)
        @ snd (splitext ''a.csv'')
       |\<in>| {|''a.csv'', ''a_20250304_102030.csv'', ''a_20250304_102030_01.csv''|}
   \<and> generate_unique_filename {|''a.csv'', ''a_20250304_102030.csv'', ''a_20250304_102030_01.csv''|}
        (mk_datetime 2025 3 4 10 20 30) ''a.csv'' = ''a_20250304_102030_02.csv''
   \<and> generate_unique_filename {|''a.csv'', ''a_20250304_102030.csv'', ''a_20250304_102030_01.csv''|}
        (mk_datetime 2025 3 4 10 20 30) ''a.csv''
       |\<notin>| {|''a.csv'', ''a_20250304_102030.csv'', ''a_20250304_102030_01.csv''|}
   \<and> upper (strip '' r'') \<in> set [''R'', ''RENAME'']
   \<and> snd (prompt_loop example_world ''a.csv'' ['' r''])
       = Inr (generate_unique_filename (files example_world) (clock example_world) ''a.csv'', True)"
proof -
  let ?E = "{|''a.csv'', ''a_20250304_102030.csv'', ''a_20250304_102030_01.csv''|}"
  have h1: "''a.csv'' |\<in>| ?E" by simp
  have h2: "fst (splitext ''a.csv'') @ ''_'' @ strftime_suffix (mk_datetime 2025 3 4 10 20 30)
        @ snd (splitext ''a.csv'') |\<in>| ?E"
    by (simp add: splitext_def rfind_def Let_def strftime_suffix_def fmt_date_def zpad_def
        str_nat.simps digit_char_def)
  have h3: "upper (strip '' r'') \<in> set [''R'', ''RENAME'']"
    by (simp add: upper_def upper_char_def strip_def is_space_def)
  have v: "generate_unique_filename ?E (mk_datetime 2025 3 4 10 20 30) ''a.csv''
             = ''a_20250304_102030_02.csv''"
    by (simp add: generate_unique_filename_def splitext_def rfind_def Let_def strftime_suffix_def
        fmt_date_def zpad_def str_nat.simps digit_char_def unique_loop.simps numbered_filename_def)
  note T = generate_unique_filename_free[of ?E "mk_datetime 2025 3 4 10 20 30" "''a.csv''"
      "'' r''" example_world "[]"]
  from T have t1: "generate_unique_filename ?E (mk_datetime 2025 3 4 10 20 30) ''a.csv'' |\<notin>| ?E"
    by blast
  from T h3 have t2: "snd (prompt_loop example_world ''a.csv'' ['' r''])
       = Inr (generate_unique_filename (files example_world) (clock example_world) ''a.csv'', True)"
    by blast
  from h1 h2 h3 v t1 t2 show ?thesis by blast
qed

section \<open>The run: cancelling at the prompt\<close>

lemma plain_Nil [simp]: "plain []"
  by (simp add: plain_def)

lemma plain_append [simp]: "plain (a @ b) \<longleftrightarrow> plain a \<and> plain b"
  by (auto simp: plain_def)

lemma plain_Cons [simp]:
  "plain (ev # evs) \<longleftrightarrow> \<not> is_prompt ev \<and> \<not> is_write ev \<and> \<not> is_saved_report ev \<and> plain evs"
  by (auto simp: plain_def)











lemma plain_no_data_events [simp]: "plain (no_data_events b)"
  by (simp add: no_data_events_def nl_def)



lemma plain_request_events [simp]: "plain (request_events w q s b d e r z x)"
  by (simp add: request_events_def nl_def)

lemma plain_date_info_events [simp]: "plain (date_info_events i)"
  by (cases i) simp_all

lemma plain_warnings [simp]: "plain (map Print (validate_timeframe_duration b d))"
  by (simp add: validate_timeframe_duration_def Let_def)


lemma plain_finally_block [simp]: "plain (finally_block c)"
  by (simp add: finally_block_def nl_def)









section \<open>The run in the example world\<close>

lemma ex_select [simp]:
  "clock example_world = mk_datetime 2025 3 4 10 20 30"
  "files example_world = {|''SPY_STK_1Y_1d_OHLCV.csv''|}"
  "stdin example_world = [''x'', '' c '']"
  "ctime_text example_world p = ''2025-03-01 09:00:00''"
  "abspath example_world p = ''/data/'' @ p"
  "connect_error example_world = None"
  "qualify_contracts example_world c = Inr [\<lparr>con_symbol = ''SPY'', con_local_symbol = ''SPY'',
                                       con_exchange = ''SMART'', con_id = ''756733''\<rparr>]"
  "req_historical_data example_world = Inr [''bar 1'', ''bar 2'']"
  "util_df example_world bars = Some (example_frame [''2024-01-15 14:30:00'', ''not a date''])"
  "to_datetime example_world = example_to_datetime"
  "tz_strftime example_world = example_strftime"
  "tzname example_world z = ''EST''"
  "to_csv_error example_world p = None"
  by (simp_all add: example_world_def)

lemma ex_args_select [simp]:
  "arg_symbol example_args = None" "arg_timeframe example_args = None"
  "arg_duration example_args = None" "arg_output_filename example_args = None"
  "arg_overwrite example_args = False" "arg_timezone_choice example_args = ''market''"
  "arg_start_date example_args = None" "arg_end_date example_args = None"
  "arg_include_extended_hours example_args = False"
  by (simp_all add: example_args_def)












section \<open>The run: a rejected date range\<close>

lemma banner_no_network: "\<not> list_ex is_network (banner a)"
  by (simp add: banner_def split: option.splits)

text \<open>
  Claim C3. When both date strings parse and the start is after the end, the resolver
  raises ValueError with the message \<open>Start date cannot be after end date\<close> (the
  InvalidRange of the specification); \<^verbatim>\<open>fetch_and_save_historical_data\<close> prints the error and
  returns, and neither it nor \<^verbatim>\<open>main\<close> has reached the data provider: no connection, no
  contract qualification, no data request.
\<close>

theorem invalid_range_aborts:
  assumes "parse_date_string s = Inr (Some sd)" and "parse_date_string e = Inr (Some ed)"
    and "dt_gt sd ed"
    and "arg_start_date a = Some s" and "arg_end_date a = Some e"
  shows "process_date_arguments now (Some s) (Some e) d eth
           = Inl (ValueError ''Start date cannot be after end date'')
       \<and> fetch_and_save_historical_data w a
           = ([Print ''ERROR: Start date cannot be after end date''], Returned)
       \<and> \<not> list_ex is_network (fst (fetch_and_save_historical_data w a))
       \<and> \<not> list_ex is_network (fst (main w a))"
proof -
  have r: "process_date_arguments now (Some s) (Some e) d eth
           = Inl (ValueError ''Start date cannot be after end date'')" for now d eth
    using assms(3) by (simp add: pda_date_range[OF assms(1,2)])
  have f: "fetch_and_save_historical_data w a
           = ([Print ''ERROR: Start date cannot be after end date''], Returned)"
    by (simp add: fetch_and_save_historical_data_def Let_def assms(4,5) r)
  have m: "\<not> list_ex is_network (fst (main w a))"
    by (simp add: main_def f banner_no_network)
  from r f m show ?thesis by simp
qed

text \<open>The theorem at the range from 2024-02-01 back to 2024-01-01.\<close>

theorem invalid_range_aborts_witness:
  "parse_date_string ''2024-02-01'' = Inr (Some (mk_datetime 2024 2 1 0 0 0))
   \<and> parse_date_string ''2024-01-01'' = Inr (Some (mk_datetime 2024 1 1 0 0 0))
   \<and> dt_gt (mk_datetime 2024 2 1 0 0 0) (mk_datetime 2024 1 1 0 0 0)
   \<and> fetch_and_save_historical_data example_world
        (example_args\<lparr>arg_start_date := Some ''2024-02-01'', arg_end_date := Some ''2024-01-01''\<rparr>)
       = ([Print ''ERROR: Start date cannot be after end date''], Returned)
   \<and> \<not> list_ex is_network (fst (main example_world
        (example_args\<lparr>arg_start_date := Some ''2024-02-01'', arg_end_date := Some ''2024-01-01''\<rparr>)))"
proof -
  have h1: "parse_date_string ''2024-02-01'' = Inr (Some (mk_datetime 2024 2 1 0 0 0))"
    by (simp add: parse_eval)
  have h2: "parse_date_string ''2024-01-01'' = Inr (Some (mk_datetime 2024 1 1 0 0 0))"
    by (simp add: parse_eval)
  have h3: "dt_gt (mk_datetime 2024 2 1 0 0 0) (mk_datetime 2024 1 1 0 0 0)"
    by (simp add: dt_gt_def dt_key_def)
  have h4: "arg_start_date (example_args\<lparr>arg_start_date := Some ''2024-02-01'',
              arg_end_date := Some ''2024-01-01''\<rparr>) = Some ''2024-02-01''" by simp
  have h5: "arg_end_date (example_args\<lparr>arg_start_date := Some ''2024-02-01'',
              arg_end_date := Some ''2024-01-01''\<rparr>) = Some ''2024-01-01''" by simp
  from invalid_range_aborts[OF h1 h2 h3 h4 h5, of _ _ _ example_world] h1 h2 h3
  show ?thesis by blast
qed

section \<open>The run: a date column that cannot be parsed\<close>

lemma save_stage_free:
  assumes "f |\<notin>| files w" "to_csv_error w f = None"
  shows "save_stage w dfo f ow
           = ([To_csv f dfo, Print (''SUCCESS: Historical OHLCV data saved to: '' @ f)], None)"
  using assms by (simp add: save_stage_def handle_file_conflict_def)

lemma convert_unparseable:
  assumes "to_datetime w cells = Inl (ValueError m) \<or> to_datetime w cells = Inl (TypeError m)"
  shows "convert_date_column w (Object_column cells) z i n
           = ([Print (''Warning: '' @ n @ '' column could not be parsed. Leaving as is.'')],
              Inr (Object_column cells))"
  using assms by (auto simp: convert_date_column_def)

text \<open>
  Claim C9, as the code has it. When \<^verbatim>\<open>pd.to_datetime\<close> raises ValueError or TypeError on the
  date column (one cell that cannot be interpreted is enough), the conversion is given up
  for the whole column: one warning is printed, every cell of the column keeps its original
  value, also the cells that can be interpreted, and the batch goes on to the conflict
  check and the save with all its rows; when the file is free and the write succeeds the
  unchanged column is written.
\<close>

theorem unparseable_column_left_as_is:
  assumes "to_datetime w cells = Inl (ValueError m) \<or> to_datetime w cells = Inl (TypeError m)"
  shows "convert_date_column w (Object_column cells) z i n
           = ([Print (''Warning: '' @ n @ '' column could not be parsed. Leaving as is.'')],
              Inr (Object_column cells))
       \<and> (bars \<noteq> [] \<and> util_df w bars = Some df \<and> \<not> df_empty df
            \<and> date_column df = Object_column cells \<longrightarrow>
          (\<exists>name. process_bars w bars b tz s f ow
             = ([Print (nl @ ''Successfully received '' @ str_nat (length bars) @ '' bars of data.''),
                 Print (''Warning: '' @ name @ '' column could not be parsed. Leaving as is.'')]
                @ fst (save_stage w \<lparr>date_name = name, date_column = Object_column cells,
                                      value_rows = value_rows df\<rparr> f ow),
                snd (save_stage w \<lparr>date_name = name, date_column = Object_column cells,
                                    value_rows = value_rows df\<rparr> f ow))
            \<and> (f |\<notin>| files w \<and> to_csv_error w f = None \<longrightarrow>
                 process_bars w bars b tz s f ow
                   = ([Print (nl @ ''Successfully received '' @ str_nat (length bars)
                              @ '' bars of data.''),
                       Print (''Warning: '' @ name @ '' column could not be parsed. Leaving as is.''),
                       To_csv f \<lparr>date_name = name, date_column = Object_column cells,
                                 value_rows = value_rows df\<rparr>,
                       Print (''SUCCESS: Historical OHLCV data saved to: '' @ f)],
                      None))))"
proof (intro conjI impI)
  show "convert_date_column w (Object_column cells) z i n
           = ([Print (''Warning: '' @ n @ '' column could not be parsed. Leaving as is.'')],
              Inr (Object_column cells))"
    by (rule convert_unparseable[OF assms])
next
  assume h: "bars \<noteq> [] \<and> util_df w bars = Some df \<and> \<not> df_empty df
            \<and> date_column df = Object_column cells"
  let ?name = "if is_intraday_timeframe b
               then ''DateTime_'' @ (if tz \<noteq> ''UTC'' then tzname w (get_target_timezone tz s)
                                     else ''UTC'')
               else ''Date''"
  let ?df = "\<lparr>date_name = ?name, date_column = Object_column cells, value_rows = value_rows df\<rparr>"
  have p: "process_bars w bars b tz s f ow
             = ([Print (nl @ ''Successfully received '' @ str_nat (length bars) @ '' bars of data.''),
                 Print (''Warning: '' @ ?name @ '' column could not be parsed. Leaving as is.'')]
                @ fst (save_stage w ?df f ow), snd (save_stage w ?df f ow))"
    using h by (simp add: process_bars_def Let_def convert_unparseable[OF assms] case_prod_beta)
  have q: "process_bars w bars b tz s f ow
                   = ([Print (nl @ ''Successfully received '' @ str_nat (length bars)
                              @ '' bars of data.''),
                       Print (''Warning: '' @ ?name @ '' column could not be parsed. Leaving as is.''),
                       To_csv f ?df,
                       Print (''SUCCESS: Historical OHLCV data saved to: '' @ f)],
                      None)"
    if "f |\<notin>| files w \<and> to_csv_error w f = None"
    using that by (simp add: p save_stage_free)
  from p q show "\<exists>name. process_bars w bars b tz s f ow
             = ([Print (nl @ ''Successfully received '' @ str_nat (length bars) @ '' bars of data.''),
                 Print (''Warning: '' @ name @ '' column could not be parsed. Leaving as is.'')]
                @ fst (save_stage w \<lparr>date_name = name, date_column = Object_column cells,
                                      value_rows = value_rows df\<rparr> f ow),
                snd (save_stage w \<lparr>date_name = name, date_column = Object_column cells,
                                    value_rows = value_rows df\<rparr> f ow))
            \<and> (f |\<notin>| files w \<and> to_csv_error w f = None \<longrightarrow>
                 process_bars w bars b tz s f ow
                   = ([Print (nl @ ''Successfully received '' @ str_nat (length bars)
                              @ '' bars of data.''),
                       Print (''Warning: '' @ name @ '' column could not be parsed. Leaving as is.''),
                       To_csv f \<lparr>date_name = name, date_column = Object_column cells,
                                 value_rows = value_rows df\<rparr>,
                       Print (''SUCCESS: Historical OHLCV data saved to: '' @ f)],
                      None))"
    by (intro exI[of _ ?name]) blast
qed


text \<open>
  The theorem in the example world, for hourly bars: the second cell is no date, the file
  is free, and both cells are written as they came.
\<close>

theorem unparseable_column_left_as_is_witness:
  "to_datetime example_world [''2024-01-15 14:30:00'', ''not a date'']
     = Inl (ValueError ''Unknown datetime string format, unable to parse'')
   \<and> [''bar 1'', ''bar 2''] \<noteq> ([] :: bar list)
   \<and> util_df example_world [''bar 1'', ''bar 2'']
       = Some (example_frame [''2024-01-15 14:30:00'', ''not a date''])
   \<and> \<not> df_empty (example_frame [''2024-01-15 14:30:00'', ''not a date''])
   \<and> date_column (example_frame [''2024-01-15 14:30:00'', ''not a date''])
       = Object_column [''2024-01-15 14:30:00'', ''not a date'']
   \<and> ''SPY_STK_1Y_1h_OHLCV.csv'' |\<notin>| files example_world
   \<and> to_csv_error example_world ''SPY_STK_1Y_1h_OHLCV.csv'' = None
   \<and> convert_date_column example_world (Object_column [''2024-01-15 14:30:00'', ''not a date''])
        (Tz ''US/Eastern'') True ''DateTime_EST''
       = ([Print ''Warning: DateTime_EST column could not be parsed. Leaving as is.''],
          Inr (Object_column [''2024-01-15 14:30:00'', ''not a date'']))
   \<and> (\<exists>name. process_bars example_world [''bar 1'', ''bar 2''] ''1 hour'' ''market'' ''SPY''
          ''SPY_STK_1Y_1h_OHLCV.csv'' False
        = ([Print (nl @ ''Successfully received '' @ str_nat (length [''bar 1'', ''bar 2''])
                   @ '' bars of data.''),
            Print (''Warning: '' @ name @ '' column could not be parsed. Leaving as is.''),
            To_csv ''SPY_STK_1Y_1h_OHLCV.csv''
              \<lparr>date_name = name,
               date_column = Object_column [''2024-01-15 14:30:00'', ''not a date''],
               value_rows = value_rows (example_frame [''2024-01-15 14:30:00'', ''not a date''])\<rparr>,
            Print (''SUCCESS: Historical OHLCV data saved to: '' @ ''SPY_STK_1Y_1h_OHLCV.csv'')],
           None))"
proof -
  let ?cells = "[''2024-01-15 14:30:00'', ''not a date'']"
  have h: "to_datetime example_world ?cells
             = Inl (ValueError ''Unknown datetime string format, unable to parse'')"
    by (simp add: example_to_datetime_def example_instant_def)
  have h': "to_datetime example_world ?cells
             = Inl (ValueError ''Unknown datetime string format, unable to parse'')
          \<or> to_datetime example_world ?cells
             = Inl (TypeError ''Unknown datetime string format, unable to parse'')"
    using h by simp
  have a: "[''bar 1'', ''bar 2''] \<noteq> ([] :: bar list)" by simp
  have b: "util_df example_world [''bar 1'', ''bar 2''] = Some (example_frame ?cells)" by simp
  have c: "\<not> df_empty (example_frame ?cells)" by (simp add: df_empty_def example_frame_def)
  have d: "date_column (example_frame ?cells) = Object_column ?cells"
    by (simp add: example_frame_def)
  have e: "''SPY_STK_1Y_1h_OHLCV.csv'' |\<notin>| files example_world" by simp
  have f: "to_csv_error example_world ''SPY_STK_1Y_1h_OHLCV.csv'' = None" by simp
  note T = unparseable_column_left_as_is[OF h', of "Tz ''US/Eastern''" True "''DateTime_EST''"
      "[''bar 1'', ''bar 2'']" "example_frame ?cells" "''1 hour''" "''market''" "''SPY''"
      "''SPY_STK_1Y_1h_OHLCV.csv''" False]
  from T have t1: "convert_date_column example_world (Object_column ?cells)
        (Tz ''US/Eastern'') True ''DateTime_EST''
       = ([Print ''Warning: DateTime_EST column could not be parsed. Leaving as is.''],
          Inr (Object_column ?cells))" by simp
  from T a b c d e f have t2: "\<exists>name. process_bars example_world [''bar 1'', ''bar 2''] ''1 hour''
          ''market'' ''SPY'' ''SPY_STK_1Y_1h_OHLCV.csv'' False
        = ([Print (nl @ ''Successfully received '' @ str_nat (length [''bar 1'', ''bar 2''])
                   @ '' bars of data.''),
            Print (''Warning: '' @ name @ '' column could not be parsed. Leaving as is.''),
            To_csv ''SPY_STK_1Y_1h_OHLCV.csv''
              \<lparr>date_name = name, date_column = Object_column ?cells,
               value_rows = value_rows (example_frame ?cells)\<rparr>,
            Print (''SUCCESS: Historical OHLCV data saved to: '' @ ''SPY_STK_1Y_1h_OHLCV.csv'')],
           None)" by blast
  from h a b c d e f t1 t2 show ?thesis by blast
qed

text \<open>
  Claim C9 as stated fails for the rows that can be interpreted: alone, the cell
  \<open>2024-01-15 14:30:00\<close> is converted to Eastern time; after a cell that is no date it is
  left unconverted, so the processing of the remaining rows does not continue.
\<close>

theorem unparseable_row_stops_conversion_counterexample:
  "convert_date_column example_world (Object_column [''2024-01-15 14:30:00''])
     (Tz ''US/Eastern'') True ''DateTime_EST''
     = ([], Inr (Object_column [''2024-01-15 09:30:00'']))
   \<and> convert_date_column example_world (Object_column [''not a date'', ''2024-01-15 14:30:00''])
       (Tz ''US/Eastern'') True ''DateTime_EST''
     = ([Print ''Warning: DateTime_EST column could not be parsed. Leaving as is.''],
        Inr (Object_column [''not a date'', ''2024-01-15 14:30:00'']))
   \<and> ''2024-01-15 14:30:00'' \<noteq> ''2024-01-15 09:30:00''"
  by (simp add: convert_date_column_def example_to_datetime_def example_instant_def
      example_strftime_def format_timezone_aware_datetime_def convert_datetime_column_def Let_def)


end
